theory Spec2Isabelle
  imports Complex_Main
begin

section \<open>JSON values as the handlers see them\<close>

text \<open>
  The request body, the query and every response body are JavaScript values that came
  from, or go to, JSON. Numbers are the finite numbers a JSON text can carry (NaN cannot
  arrive in a JSON body). An object is the list of its bindings, each key bound once.
\<close>

datatype jsval =
    JUndefined
  | JNull
  | JBool bool
  | JNum rat
  | JStr string
  | JArr "jsval list"
  | JObj "(string \<times> jsval) list"

text \<open>JavaScript truthiness, the meaning of \<^verbatim>\<open>!v\<close> in the handlers.\<close>

fun truthy :: "jsval \<Rightarrow> bool" where
  "truthy JUndefined = False"
| "truthy JNull = False"
| "truthy (JBool b) = b"
| "truthy (JNum n) = (n \<noteq> 0)"
| "truthy (JStr s) = (s \<noteq> [])"
| "truthy (JArr xs) = True"
| "truthy (JObj kvs) = True"

text \<open>
  Reading a property, as the destructuring \<^verbatim>\<open>const { name, ... } = req.body\<close> does on a
  body that is not null or undefined: a missing property, and any property of a value
  that is not an object, reads as undefined.
\<close>

fun js_get :: "jsval \<Rightarrow> string \<Rightarrow> jsval" where
  "js_get (JObj kvs) k = (case map_of kvs k of Some v \<Rightarrow> v | None \<Rightarrow> JUndefined)"
| "js_get v k = JUndefined"

section \<open>Products, responses and the Store interface\<close>

text \<open>
  A persisted Product: the five paths of \<^verbatim>\<open>productSchema\<close> and the identifier the
  Store assigned. \<open>inStock\<close> is \<open>None\<close> when the stored value is null.
\<close>

record document =
  doc_id :: string
  name :: string
  brand :: string
  category :: string
  price :: rat
  inStock :: "bool option"

definition toJSON :: "document \<Rightarrow> jsval" where
  "toJSON d = JObj
     [(''_id'', JStr (doc_id d)),
      (''name'', JStr (name d)),
      (''brand'', JStr (brand d)),
      (''category'', JStr (category d)),
      (''price'', JNum (price d)),
      (''inStock'', (case inStock d of Some b \<Rightarrow> JBool b | None \<Rightarrow> JNull))]"

text \<open>\<^verbatim>\<open>res.status(code).json(value)\<close>.\<close>

record response =
  status :: nat
  body :: jsval

text \<open>
  What awaiting a Store call gives: the value it resolves to (\<open>Inr\<close>), or a thrown
  error (\<open>Inl\<close>), kept as the text \<^verbatim>\<open>String(err)\<close> makes of it.
\<close>

type_synonym 'a outcome = "string + 'a"

text \<open>
  The two imports of the controller, \<^verbatim>\<open>mongoose\<close> and the \<^verbatim>\<open>Product\<close> model, are
  library code: the handlers take them as a parameter, over any Store state \<open>'s\<close>.
  A lookup that finds nothing resolves to null (\<open>None\<close>).
\<close>

record 's model =
  isValidObjectId :: "string \<Rightarrow> bool"
  Product_find :: "jsval \<Rightarrow> 's \<Rightarrow> document list outcome \<times> 's"
  Product_findById :: "string \<Rightarrow> 's \<Rightarrow> document option outcome \<times> 's"
  Product_create :: "jsval \<Rightarrow> 's \<Rightarrow> document outcome \<times> 's"
  Product_findByIdAndUpdate :: "string \<Rightarrow> jsval \<Rightarrow> 's \<Rightarrow> document option outcome \<times> 's"
  Product_findByIdAndDelete :: "string \<Rightarrow> 's \<Rightarrow> document option outcome \<times> 's"

text \<open>
  The handlers run in a world made of the Store's state and the trace of the Store calls
  issued so far: a handler that leaves the trace as it was has not accessed the Store.
\<close>

datatype call =
    Find jsval
  | FindById string
  | Create jsval
  | FindByIdAndUpdate string jsval
  | FindByIdAndDelete string

record 's world =
  db :: 's
  calls :: "call list"

definition await :: "call \<Rightarrow> ('s \<Rightarrow> 'a outcome \<times> 's) \<Rightarrow> 's world \<Rightarrow> 'a outcome \<times> 's world" where
  "await c operation w =
     (case operation (db w) of (r, s') \<Rightarrow> (r, \<lparr>db = s', calls = calls w @ [c]\<rparr>))"

section \<open>The controller\<close>

definition message :: "string \<Rightarrow> jsval" where
  "message m = JObj [(''message'', JStr m)]"

definition server_error :: "string \<Rightarrow> response" where
  "server_error err =
     \<lparr>status = 500, body = JObj [(''message'', JStr ''Server error''), (''error'', JStr err)]\<rparr>"

definition getProducts :: "'s model \<Rightarrow> jsval \<Rightarrow> 's world \<Rightarrow> response \<times> 's world" where
  "getProducts M query w =
     (case await (Find query) (Product_find M query) w of
        (Inl err, w') \<Rightarrow> (server_error err, w')
      | (Inr products, w') \<Rightarrow>
          if length products = 0
          then (\<lparr>status = 404, body = message ''No products found''\<rparr>, w')
          else (\<lparr>status = 200, body = JArr (map toJSON products)\<rparr>, w'))"

definition getProductById :: "'s model \<Rightarrow> string \<Rightarrow> 's world \<Rightarrow> response \<times> 's world" where
  "getProductById M id' w =
     (if \<not> isValidObjectId M id'
      then (\<lparr>status = 400, body = message ''Invalid product ID''\<rparr>, w)
      else
        (case await (FindById id') (Product_findById M id') w of
           (Inl err, w') \<Rightarrow> (server_error err, w')
         | (Inr None, w') \<Rightarrow> (\<lparr>status = 404, body = message ''Product not found''\<rparr>, w')
         | (Inr (Some product), w') \<Rightarrow> (\<lparr>status = 200, body = toJSON product\<rparr>, w')))"

definition createProduct :: "'s model \<Rightarrow> jsval \<Rightarrow> 's world \<Rightarrow> response \<times> 's world" where
  "createProduct M req_body w =
     (if \<not> truthy req_body
      then (\<lparr>status = 400, body = message ''Product data is required''\<rparr>, w)
      else
        (let name = js_get req_body ''name'';
             brand = js_get req_body ''brand'';
             category = js_get req_body ''category'';
             price = js_get req_body ''price'';
             inStock = js_get req_body ''inStock''
         in
           if \<not> truthy name \<or> \<not> truthy brand \<or> \<not> truthy category \<or> price = JUndefined
           then (\<lparr>status = 400,
                  body = message ''Name, brand, category, and price are required''\<rparr>, w)
           else
             (let fields = JObj [(''name'', name), (''brand'', brand), (''category'', category),
                                 (''price'', price), (''inStock'', inStock)]
              in
                (case await (Create fields) (Product_create M fields) w of
                   (Inl err, w') \<Rightarrow> (server_error err, w')
                 | (Inr created, w') \<Rightarrow>
                     (\<lparr>status = 201,
                       body = JObj [(''message'', JStr ''Product created successfully''),
                                    (''product'', toJSON created)]\<rparr>, w')))))"

definition updateProduct :: "'s model \<Rightarrow> string \<Rightarrow> jsval \<Rightarrow> 's world \<Rightarrow> response \<times> 's world" where
  "updateProduct M id' req_body w =
     (if id' = []
      then (\<lparr>status = 400, body = message ''Id Parameter Missing''\<rparr>, w)
      else if \<not> isValidObjectId M id'
      then (\<lparr>status = 400, body = message ''Invalid product ID''\<rparr>, w)
      else
        (case await (FindByIdAndUpdate id' req_body) (Product_findByIdAndUpdate M id' req_body) w of
           (Inl err, w') \<Rightarrow> (server_error err, w')
         | (Inr None, w') \<Rightarrow> (\<lparr>status = 404, body = message ''Product not found''\<rparr>, w')
         | (Inr (Some updatedProduct), w') \<Rightarrow>
             (\<lparr>status = 200,
               body = JObj [(''message'', JStr ''Product updated successfully''),
                            (''product'', toJSON updatedProduct)]\<rparr>, w')))"

definition deleteProduct :: "'s model \<Rightarrow> string \<Rightarrow> 's world \<Rightarrow> response \<times> 's world" where
  "deleteProduct M id' w =
     (if id' = []
      then (\<lparr>status = 400, body = message ''Id Parameter Missing''\<rparr>, w)
      else if \<not> isValidObjectId M id'
      then (\<lparr>status = 400, body = message ''Invalid product ID''\<rparr>, w)
      else
        (case await (FindByIdAndDelete id') (Product_findByIdAndDelete M id') w of
           (Inl err, w') \<Rightarrow> (server_error err, w')
         | (Inr None, w') \<Rightarrow> (\<lparr>status = 404, body = message ''Product not found''\<rparr>, w')
         | (Inr (Some deleted), w') \<Rightarrow>
             (\<lparr>status = 200, body = message ''Product deleted successfully''\<rparr>, w')))"

section \<open>The Product model over an in-memory collection\<close>

text \<open>
  The Store behind the controller is mongoose over a MongoDB collection. Its state here
  is the collection in insertion order, the counter that identifiers are drawn from, and
  whether the database can be reached.
\<close>

record store =
  docs :: "document list"
  next_id :: nat
  online :: bool

subsection \<open>Identifiers\<close>

definition hex_char :: "nat \<Rightarrow> char" where
  "hex_char n = ''0123456789abcdef'' ! (n mod 16)"

fun hex_digits :: "nat \<Rightarrow> nat \<Rightarrow> string" where
  "hex_digits 0 n = []"
| "hex_digits (Suc k) n = hex_digits k (n div 16) @ [hex_char n]"

text \<open>
  Modelled from the spec: the identifier the Store assigns at creation (the ObjectId
  generator of the database driver is not part of the repository). Identifiers are
  opaque, unique and never reused: the \<open>n\<close>-th one is \<open>n\<close> written with 24
  hexadecimal digits.
\<close>

definition new_id :: "nat \<Rightarrow> string" where
  "new_id n = hex_digits 24 n"

definition is_hex :: "char \<Rightarrow> bool" where
  "is_hex c = (c \<in> set ''0123456789abcdefABCDEF'')"

text \<open>
  Modelled from the spec: the identifier validity check \<^verbatim>\<open>isValidId(string) -> bool\<close>
  of the Store contract (\<^verbatim>\<open>mongoose.isValidObjectId\<close> is library code), for the
  format of the identifiers above: 24 hexadecimal digits.
\<close>

definition isValidId :: "string \<Rightarrow> bool" where
  "isValidId s = (length s = 24 \<and> list_all is_hex s)"

subsection \<open>Casting to the types of \<^verbatim>\<open>productSchema\<close>\<close>

text \<open>
  Before it validates a path, mongoose casts the value it was given to the path's type.
  A cast gives a value of the type, or nothing (the value was null or undefined, or
  casts to null), or fails.
\<close>

datatype 'a cast = Value 'a | Absent | CastFailed

text \<open>
  Two conversions of the JavaScript runtime are needed, \<^verbatim>\<open>String(number)\<close> and
  \<^verbatim>\<open>Number(text)\<close>. They are written out for the plain cases: a whole number below
  \<open>2 ^ 53\<close> in size is its decimal digits, with a minus sign when negative, and a text
  of decimal digits, with an optional sign before and an optional fraction after a
  point, is the number it writes (as an exact number: the rounding to a double is left
  out, as for the numbers of a JSON text). Every other number and text is left to
  \<open>other_String\<close> and \<open>other_Number\<close>, of which nothing is assumed; \<open>None\<close> stands
  for NaN.
\<close>

definition other_String :: "rat \<Rightarrow> string" where
  "other_String = (SOME f. True)"

definition other_Number :: "string \<Rightarrow> rat option" where
  "other_Number = (SOME f. True)"

definition digit_char :: "nat \<Rightarrow> char" where
  "digit_char n = ''0123456789'' ! (n mod 10)"

fun decimal :: "nat \<Rightarrow> string" where
  "decimal n = (if n < 10 then [digit_char n] else decimal (n div 10) @ [digit_char n])"

definition js_String :: "rat \<Rightarrow> string" where
  "js_String n =
     (if n = of_int \<lfloor>n\<rfloor> \<and> \<bar>n\<bar> < 2 ^ 53
      then (if n < 0 then ''-'' @ decimal (nat (- \<lfloor>n\<rfloor>)) else decimal (nat \<lfloor>n\<rfloor>))
      else other_String n)"

definition digit_value :: "char \<Rightarrow> nat option" where
  "digit_value c =
     (if c \<in> set ''0123456789'' then Some (of_char c - of_char CHR ''0'') else None)"

fun digits_value :: "string \<Rightarrow> nat \<Rightarrow> nat option" where
  "digits_value [] acc = Some acc"
| "digits_value (c # cs) acc =
     (case digit_value c of None \<Rightarrow> None | Some d \<Rightarrow> digits_value cs (10 * acc + d))"

definition unsigned_numeral :: "string \<Rightarrow> rat option" where
  "unsigned_numeral s =
     (let whole = takeWhile (\<lambda>c. c \<noteq> CHR ''.'') s;
          rest = dropWhile (\<lambda>c. c \<noteq> CHR ''.'') s
      in
        if rest = [] then (if whole = [] then None else map_option of_nat (digits_value whole 0))
        else if whole = [] \<and> tl rest = [] then None
        else
          (case (digits_value whole 0, digits_value (tl rest) 0) of
             (Some a, Some b) \<Rightarrow> Some (of_nat a + of_nat b / 10 ^ length (tl rest))
           | _ \<Rightarrow> None))"

definition plain_numeral :: "string \<Rightarrow> rat option" where
  "plain_numeral s =
     (case s of
        [] \<Rightarrow> None
      | c # cs \<Rightarrow>
          if c = CHR ''-'' then map_option uminus (unsigned_numeral cs)
          else if c = CHR ''+'' then unsigned_numeral cs
          else unsigned_numeral s)"

definition js_Number :: "string \<Rightarrow> rat option" where
  "js_Number s = (case plain_numeral s of Some n \<Rightarrow> Some n | None \<Rightarrow> other_Number s)"

text \<open>
  \<^verbatim>\<open>type: String\<close>. A text is kept, a number or a boolean is written as a text, an
  object that has a text \<^verbatim>\<open>_id\<close> is cast to that, and the cast of an array or of any
  other object fails.
\<close>

definition castString :: "jsval \<Rightarrow> string cast" where
  "castString v =
     (case v of
        JUndefined \<Rightarrow> Absent
      | JNull \<Rightarrow> Absent
      | JStr s \<Rightarrow> Value s
      | JNum n \<Rightarrow> Value (js_String n)
      | JBool b \<Rightarrow> Value (if b then ''true'' else ''false'')
      | JArr xs \<Rightarrow> CastFailed
      | JObj kvs \<Rightarrow>
          (case js_get v ''_id'' of
             JStr i \<Rightarrow> if i = [] then CastFailed else Value i
           | _ \<Rightarrow> CastFailed))"

text \<open>
  \<^verbatim>\<open>type: Number\<close>. A value that has an \<^verbatim>\<open>_id\<close> stands for its \<^verbatim>\<open>_id\<close>. Then a
  number is kept, the empty text casts to null, any other text is cast by
  \<^verbatim>\<open>Number(text)\<close> and fails when that is NaN, true and false are 1 and 0, and the
  cast of an array or an object fails.
\<close>

definition id_of_document :: "jsval \<Rightarrow> jsval" where
  "id_of_document v =
     (case v of
        JObj kvs \<Rightarrow> (case js_get v ''_id'' of JUndefined \<Rightarrow> v | i \<Rightarrow> i)
      | _ \<Rightarrow> v)"

definition castNumber :: "jsval \<Rightarrow> rat cast" where
  "castNumber v =
     (case v of
        JUndefined \<Rightarrow> Absent
      | JNull \<Rightarrow> Absent
      | JNum n \<Rightarrow> Value n
      | JStr s \<Rightarrow>
          if s = [] then Absent
          else (case js_Number s of Some n \<Rightarrow> Value n | None \<Rightarrow> CastFailed)
      | JBool b \<Rightarrow> Value (if b then 1 else 0)
      | JArr xs \<Rightarrow> CastFailed
      | JObj kvs \<Rightarrow> CastFailed)"

text \<open>
  \<^verbatim>\<open>type: Boolean\<close>. Besides the booleans, \<^verbatim>\<open>"true"\<close>, \<^verbatim>\<open>"1"\<close>, \<^verbatim>\<open>"yes"\<close> and 1
  are true and \<^verbatim>\<open>"false"\<close>, \<^verbatim>\<open>"0"\<close>, \<^verbatim>\<open>"no"\<close> and 0 are false; the cast of
  anything else that is not null or undefined fails.
\<close>

definition castBoolean :: "jsval \<Rightarrow> bool cast" where
  "castBoolean v =
     (case v of
        JUndefined \<Rightarrow> Absent
      | JNull \<Rightarrow> Absent
      | JBool b \<Rightarrow> Value b
      | JStr s \<Rightarrow>
          if s \<in> set [''true'', ''1'', ''yes''] then Value True
          else if s \<in> set [''false'', ''0'', ''no''] then Value False
          else CastFailed
      | JNum n \<Rightarrow> if n = 1 then Value True else if n = 0 then Value False else CastFailed
      | JArr xs \<Rightarrow> CastFailed
      | JObj kvs \<Rightarrow> CastFailed)"

text \<open>
  The message of the CastError that mongoose raises for a type, a value and a path. It
  renders the value with the runtime's inspector; nothing is assumed of it.
\<close>

definition cast_message :: "string \<Rightarrow> jsval \<Rightarrow> string \<Rightarrow> string" where
  "cast_message = (SOME f. True)"

subsection \<open>Field validation, from \<^verbatim>\<open>productSchema\<close>\<close>

text \<open>
  Each check gives the value to store, or the problem that mongoose reports for the
  path, \<^verbatim>\<open>path: message\<close>.

  \<^verbatim>\<open>{ type: String, required: [true, msg] }\<close>: after the cast, a missing value and
  the empty text fail the required check.
\<close>

definition check_text :: "string \<Rightarrow> string \<Rightarrow> jsval \<Rightarrow> string + string" where
  "check_text path required_msg v =
     (case castString v of
        CastFailed \<Rightarrow> Inl (path @ '': '' @ cast_message ''string'' v path)
      | Absent \<Rightarrow> Inl (path @ '': '' @ required_msg)
      | Value s \<Rightarrow> if s = [] then Inl (path @ '': '' @ required_msg) else Inr s)"

text \<open>\<^verbatim>\<open>{ type: Number, required: [true, "Price Required"], min: [0, "Price cannot be negative"] }\<close>\<close>

definition check_price :: "jsval \<Rightarrow> string + rat" where
  "check_price v =
     (case castNumber (id_of_document v) of
        CastFailed \<Rightarrow> Inl (''price: '' @ cast_message ''Number'' (id_of_document v) ''price'')
      | Absent \<Rightarrow> Inl ''price: Price Required''
      | Value n \<Rightarrow> if n < 0 then Inl ''price: Price cannot be negative'' else Inr n)"

text \<open>\<^verbatim>\<open>{ type: Boolean, default: true }\<close>: the default replaces undefined only; null is kept.\<close>

definition check_inStock :: "jsval \<Rightarrow> string + bool option" where
  "check_inStock v =
     (case castBoolean v of
        CastFailed \<Rightarrow> Inl (''inStock: '' @ cast_message ''Boolean'' v ''inStock'')
      | Absent \<Rightarrow> Inr (if v = JUndefined then Some True else None)
      | Value b \<Rightarrow> Inr (Some b))"

text \<open>Whether the cast of a value to the type of a path of the schema fails.\<close>

definition cast_fails :: "string \<Rightarrow> jsval \<Rightarrow> bool" where
  "cast_fails path v =
     (if path \<in> set [''name'', ''brand'', ''category''] then castString v = CastFailed
      else if path = ''price'' then castNumber (id_of_document v) = CastFailed
      else if path = ''inStock'' then castBoolean v = CastFailed
      else False)"

definition problems :: "string + 'a \<Rightarrow> string list" where
  "problems r = (case r of Inl e \<Rightarrow> [e] | Inr x \<Rightarrow> [])"

fun join :: "string list \<Rightarrow> string" where
  "join [] = []"
| "join [e] = e"
| "join (e # es) = e @ '', '' @ join es"

text \<open>
  \<^verbatim>\<open>String(err)\<close> of the ValidationError that holds the problems of the failing paths.
\<close>

definition validation_failed :: "string list \<Rightarrow> string" where
  "validation_failed es = ''ValidationError: '' @ join es"

definition unreachable :: string where
  "unreachable = ''MongooseError: the database cannot be reached''"

subsection \<open>The five Store operations\<close>

text \<open>
  Modelled from the spec: \<^verbatim>\<open>find(filter) -> sequence of Product\<close>, all Products matching
  all supplied filters by equality, in storage order (\<^verbatim>\<open>Model.find\<close> is library code).
  A filter value is compared with the stored value as it is; a filter that is not an
  object has no bindings.
\<close>

fun bindings :: "jsval \<Rightarrow> (string \<times> jsval) list" where
  "bindings (JObj kvs) = kvs"
| "bindings v = []"

definition matches :: "jsval \<Rightarrow> document \<Rightarrow> bool" where
  "matches query d = list_all (\<lambda>(k, v). js_get (toJSON d) k = v) (bindings query)"

definition store_find :: "jsval \<Rightarrow> store \<Rightarrow> document list outcome \<times> store" where
  "store_find query s =
     (if \<not> online s then (Inl unreachable, s)
      else (Inr (filter (matches query) (docs s)), s))"

text \<open>Modelled from the spec: \<^verbatim>\<open>findById(id) -> Product or not-found\<close>.\<close>

definition store_findById :: "string \<Rightarrow> store \<Rightarrow> document option outcome \<times> store" where
  "store_findById id' s =
     (if \<not> online s then (Inl unreachable, s)
      else (Inr (find (\<lambda>d. doc_id d = id') (docs s)), s))"

text \<open>
  Modelled from the spec: \<^verbatim>\<open>insert(fields) -> Product\<close> (assigns id, applies defaults,
  runs field validation, may fail). Every failing path is reported, in one
  ValidationError; nothing is stored when one fails.
\<close>

definition cast_problem :: "string \<Rightarrow> jsval \<Rightarrow> string + 'a \<Rightarrow> string list" where
  "cast_problem path v r = (if cast_fails path v then problems r else [])"

definition validator_problem :: "string \<Rightarrow> jsval \<Rightarrow> string + 'a \<Rightarrow> string list" where
  "validator_problem path v r = (if cast_fails path v then [] else problems r)"

text \<open>
  The problems of a new document: the casts that failed when the document was built,
  then the failures of the validators, which run when it is saved.
\<close>

definition create_problems :: "jsval \<Rightarrow> string list" where
  "create_problems payload =
     cast_problem ''name'' (js_get payload ''name'')
       (check_text ''name'' ''Name Required'' (js_get payload ''name''))
     @ cast_problem ''brand'' (js_get payload ''brand'')
       (check_text ''brand'' ''Brand Required'' (js_get payload ''brand''))
     @ cast_problem ''category'' (js_get payload ''category'')
       (check_text ''category'' ''Category Required'' (js_get payload ''category''))
     @ cast_problem ''price'' (js_get payload ''price'') (check_price (js_get payload ''price''))
     @ cast_problem ''inStock'' (js_get payload ''inStock'')
       (check_inStock (js_get payload ''inStock''))
     @ validator_problem ''name'' (js_get payload ''name'')
       (check_text ''name'' ''Name Required'' (js_get payload ''name''))
     @ validator_problem ''brand'' (js_get payload ''brand'')
       (check_text ''brand'' ''Brand Required'' (js_get payload ''brand''))
     @ validator_problem ''category'' (js_get payload ''category'')
       (check_text ''category'' ''Category Required'' (js_get payload ''category''))
     @ validator_problem ''price'' (js_get payload ''price'')
       (check_price (js_get payload ''price''))"

definition store_create :: "jsval \<Rightarrow> store \<Rightarrow> document outcome \<times> store" where
  "store_create payload s =
     (if \<not> online s then (Inl unreachable, s)
      else
        (let vn = check_text ''name'' ''Name Required'' (js_get payload ''name'');
             vb = check_text ''brand'' ''Brand Required'' (js_get payload ''brand'');
             vc = check_text ''category'' ''Category Required'' (js_get payload ''category'');
             vp = check_price (js_get payload ''price'');
             vi = check_inStock (js_get payload ''inStock'')
         in
           (case (vn, vb, vc, vp, vi) of
              (Inr n, Inr b, Inr c, Inr p, Inr i) \<Rightarrow>
                (let d = \<lparr>doc_id = new_id (next_id s), name = n, brand = b, category = c,
                          price = p, inStock = i\<rparr>
                 in (Inr d, s\<lparr>docs := docs s @ [d], next_id := Suc (next_id s)\<rparr>))
            | _ \<Rightarrow> (Inl (validation_failed (create_problems payload)), s))))"

text \<open>
  Modelled from the spec: \<^verbatim>\<open>updateById(id, partialFields) -> updated Product or
  not-found\<close> (runs field validation on write), called with \<^verbatim>\<open>runValidators: true\<close> and
  \<^verbatim>\<open>new: true\<close>. Only the paths the payload supplies are cast, validated and
  overwritten; validation comes before the lookup; the Product as updated is returned.
\<close>

definition supplied :: "(jsval \<Rightarrow> string + 'a) \<Rightarrow> jsval \<Rightarrow> string + 'a option" where
  "supplied check v =
     (if v = JUndefined then Inr None
      else (case check v of Inl e \<Rightarrow> Inl e | Inr x \<Rightarrow> Inr (Some x)))"

definition overwrite :: "'a option \<Rightarrow> 'a \<Rightarrow> 'a" where
  "overwrite new old = (case new of Some x \<Rightarrow> x | None \<Rightarrow> old)"

definition update_problems :: "jsval \<Rightarrow> string list" where
  "update_problems payload =
     problems (supplied (check_text ''name'' ''Name Required'') (js_get payload ''name''))
     @ problems (supplied (check_text ''brand'' ''Brand Required'') (js_get payload ''brand''))
     @ problems (supplied (check_text ''category'' ''Category Required'') (js_get payload ''category''))
     @ problems (supplied check_price (js_get payload ''price''))
     @ problems (supplied check_inStock (js_get payload ''inStock''))"

text \<open>
  \<^verbatim>\<open>String(err)\<close> of what a refused update throws. When one path fails a validator it
  is the ValidationError with that problem. When a cast fails mongoose throws the
  CastError itself, and when several paths fail the order in which they are reported is
  not fixed by the Store contract: the text is then left to \<open>other_update_error\<close>, of
  which nothing is assumed.
\<close>

definition update_cast_fails :: "jsval \<Rightarrow> bool" where
  "update_cast_fails payload =
     list_ex (\<lambda>path. js_get payload path \<noteq> JUndefined \<and> cast_fails path (js_get payload path))
       [''name'', ''brand'', ''category'', ''price'', ''inStock'']"

definition other_update_error :: "jsval \<Rightarrow> string" where
  "other_update_error = (SOME f. True)"

definition update_error :: "jsval \<Rightarrow> string" where
  "update_error payload =
     (case update_problems payload of
        [e] \<Rightarrow> if update_cast_fails payload then other_update_error payload
               else validation_failed [e]
      | es \<Rightarrow> other_update_error payload)"

definition store_findByIdAndUpdate ::
  "string \<Rightarrow> jsval \<Rightarrow> store \<Rightarrow> document option outcome \<times> store" where
  "store_findByIdAndUpdate id' payload s =
     (if \<not> online s then (Inl unreachable, s)
      else
        (let vn = supplied (check_text ''name'' ''Name Required'') (js_get payload ''name'');
             vb = supplied (check_text ''brand'' ''Brand Required'') (js_get payload ''brand'');
             vc = supplied (check_text ''category'' ''Category Required'') (js_get payload ''category'');
             vp = supplied check_price (js_get payload ''price'');
             vi = supplied check_inStock (js_get payload ''inStock'')
         in
           (case (vn, vb, vc, vp, vi) of
              (Inr n, Inr b, Inr c, Inr p, Inr i) \<Rightarrow>
                (case find (\<lambda>d. doc_id d = id') (docs s) of
                   None \<Rightarrow> (Inr None, s)
                 | Some old \<Rightarrow>
                     (let d = \<lparr>doc_id = doc_id old,
                               name = overwrite n (name old),
                               brand = overwrite b (brand old),
                               category = overwrite c (category old),
                               price = overwrite p (price old),
                               inStock = overwrite i (inStock old)\<rparr>
                      in (Inr (Some d),
                          s\<lparr>docs := map (\<lambda>x. if doc_id x = id' then d else x) (docs s)\<rparr>)))
            | _ \<Rightarrow> (Inl (update_error payload), s))))"

text \<open>Modelled from the spec: \<^verbatim>\<open>deleteById(id) -> deleted Product or not-found\<close>.\<close>

definition store_findByIdAndDelete :: "string \<Rightarrow> store \<Rightarrow> document option outcome \<times> store" where
  "store_findByIdAndDelete id' s =
     (if \<not> online s then (Inl unreachable, s)
      else
        (case find (\<lambda>d. doc_id d = id') (docs s) of
           None \<Rightarrow> (Inr None, s)
         | Some d \<Rightarrow> (Inr (Some d), s\<lparr>docs := remove1 d (docs s)\<rparr>)))"

definition Product :: "store model" where
  "Product =
     \<lparr>isValidObjectId = isValidId,
      Product_find = store_find,
      Product_findById = store_findById,
      Product_create = store_create,
      Product_findByIdAndUpdate = store_findByIdAndUpdate,
      Product_findByIdAndDelete = store_findByIdAndDelete\<rparr>"

text \<open>
  The collections the Store can be in: every stored identifier was drawn from the
  counter, no two Products share one, and the counter has not used up the 24 digits.
\<close>

definition store_ok :: "store \<Rightarrow> bool" where
  "store_ok s =
     (list_all (\<lambda>d. doc_id d \<in> new_id ` {..<next_id s}) (docs s)
      \<and> distinct (map doc_id (docs s))
      \<and> next_id s < 16 ^ 24)"

text \<open>
  A response carries a human-readable message when its body is an object whose
  \<^verbatim>\<open>message\<close> is a text.
\<close>

definition has_message :: "jsval \<Rightarrow> bool" where
  "has_message v =
     (case js_get v ''message'' of JStr m \<Rightarrow> True | _ \<Rightarrow> False)"

text \<open>A reachable Store with an empty collection, before any call.\<close>

definition start :: "store world" where
  "start = \<lparr>db = \<lparr>docs = [], next_id = 0, online = True\<rparr>, calls = []\<rparr>"

text \<open>The payload of the spec's first scenario, with a price to choose.\<close>

definition pen :: "jsval \<Rightarrow> jsval" where
  "pen p = JObj [(''name'', JStr ''Pen''), (''brand'', JStr ''Acme''),
                 (''category'', JStr ''Stationery''), (''price'', p)]"

text \<open>The Product that scenario creates, and a reachable Store holding just it.\<close>

definition pen_doc :: document where
  "pen_doc = \<lparr>doc_id = new_id 0, name = ''Pen'', brand = ''Acme'', category = ''Stationery'',
              price = 3 / 2, inStock = Some True\<rparr>"

definition shop :: "store world" where
  "shop = \<lparr>db = \<lparr>docs = [pen_doc], next_id = 1, online = True\<rparr>, calls = []\<rparr>"

section \<open>Facts about the model\<close>

subsection \<open>The checks on values of the path's own type, and on some that are cast\<close>

lemma check_text_text:
  "check_text path msg (JStr t) = (if t = [] then Inl (path @ '': '' @ msg) else Inr t)"
  by (simp add: check_text_def castString_def)

lemma check_price_number:
  "check_price (JNum p) = (if p < 0 then Inl ''price: Price cannot be negative'' else Inr p)"
  by (simp add: check_price_def castNumber_def id_of_document_def)

lemma check_price_null: "check_price JNull = Inl ''price: Price Required''"
  by (simp add: check_price_def castNumber_def id_of_document_def)

lemma check_inStock_simple:
  "check_inStock (JBool x) = Inr (Some x)"
  "check_inStock JNull = Inr None"
  "check_inStock JUndefined = Inr (Some True)"
  by (simp_all add: check_inStock_def castBoolean_def)

lemma check_price_cast:
  "check_price (JStr ''12'') = Inr 12"
  "check_price (JStr ''1.5'') = Inr (3 / 2)"
  "check_price (JStr ''-3'') = Inl ''price: Price cannot be negative''"
  "check_price (JBool True) = Inr 1"
  "check_price (JStr []) = Inl ''price: Price Required''"
  by (simp_all add: check_price_def castNumber_def id_of_document_def js_Number_def
        plain_numeral_def unsigned_numeral_def digit_value_def)

lemma check_text_cast:
  "check_text ''name'' ''Name Required'' (JNum 123) = Inr ''123''"
  "check_text ''name'' ''Name Required'' (JBool True) = Inr ''true''"
  by (simp_all add: check_text_def castString_def js_String_def digit_char_def)

lemma check_inStock_cast:
  "check_inStock (JStr ''yes'') = Inr (Some True)"
  "check_inStock (JNum 0) = Inr (Some False)"
  by (simp_all add: check_inStock_def castBoolean_def)

lemma price_not_cast_failure: "\<not> cast_fails ''price'' (JNum p)"
  by (simp add: cast_fails_def castNumber_def id_of_document_def)

subsection \<open>Identifiers\<close>

lemma length_hex_digits: "length (hex_digits k n) = k"
  by (induction k arbitrary: n) simp_all

lemma hex_char_is_hex: "is_hex (hex_char n)"
proof -
  have "n mod 16 < length ''0123456789abcdef''" by simp
  then have "hex_char n \<in> set ''0123456789abcdef''"
    unfolding hex_char_def by (rule nth_mem)
  then show ?thesis by (auto simp: is_hex_def)
qed

lemma hex_digits_all_hex: "list_all is_hex (hex_digits k n)"
  by (induction k arbitrary: n) (simp_all add: hex_char_is_hex)

lemma hex_char_inj: "hex_char m = hex_char n \<Longrightarrow> m mod 16 = n mod 16"
proof -
  assume h: "hex_char m = hex_char n"
  have d: "distinct ''0123456789abcdef''" by simp
  have "m mod 16 < length ''0123456789abcdef''" "n mod 16 < length ''0123456789abcdef''"
    by simp_all
  with d h show ?thesis
    unfolding hex_char_def by (simp only: nth_eq_iff_index_eq)
qed

lemma hex_digits_inj:
  "hex_digits k m = hex_digits k n \<Longrightarrow> m mod 16 ^ k = n mod 16 ^ k"
proof (induction k arbitrary: m n)
  case 0
  then show ?case by simp
next
  case (Suc k)
  from Suc.prems have a: "hex_digits k (m div 16) = hex_digits k (n div 16)"
    and b: "hex_char m = hex_char n"
    by (simp_all add: length_hex_digits)
  from Suc.IH [OF a] have c: "m div 16 mod 16 ^ k = n div 16 mod 16 ^ k" .
  from hex_char_inj [OF b] have e: "m mod 16 = n mod 16" .
  have "m mod (16 * 16 ^ k) = 16 * (m div 16 mod 16 ^ k) + m mod 16"
    by (rule mod_mult2_eq)
  moreover have "n mod (16 * 16 ^ k) = 16 * (n div 16 mod 16 ^ k) + n mod 16"
    by (rule mod_mult2_eq)
  ultimately show ?case using c e by simp
qed

lemma new_id_valid: "isValidId (new_id n)"
  by (simp add: isValidId_def new_id_def length_hex_digits hex_digits_all_hex)

lemma new_id_not_empty: "new_id n \<noteq> []"
  using length_hex_digits [of 24 n] by (auto simp: new_id_def)

lemma new_id_inj: "new_id m = new_id n \<Longrightarrow> m < 16 ^ 24 \<Longrightarrow> n < 16 ^ 24 \<Longrightarrow> m = n"
  using hex_digits_inj [of 24 m n] by (simp add: new_id_def)

lemma new_id_fresh:
  assumes "store_ok s"
  shows "new_id (next_id s) \<notin> doc_id ` set (docs s)"
proof
  assume "new_id (next_id s) \<in> doc_id ` set (docs s)"
  then obtain d where d: "d \<in> set (docs s)" "doc_id d = new_id (next_id s)" by auto
  from assms d(1) obtain k where k: "k < next_id s" "doc_id d = new_id k"
    by (auto simp: store_ok_def list_all_iff)
  from assms have "next_id s < 16 ^ 24" by (simp add: store_ok_def)
  with k d(2) new_id_inj [of k "next_id s"] show False by simp
qed

lemma stored_id_valid:
  assumes "store_ok s" and "d \<in> set (docs s)"
  shows "isValidId (doc_id d)" and "doc_id d \<noteq> []"
proof -
  from assms obtain k where "doc_id d = new_id k"
    by (auto simp: store_ok_def list_all_iff)
  then show "isValidId (doc_id d)" and "doc_id d \<noteq> []"
    by (simp_all add: new_id_valid new_id_not_empty)
qed

subsection \<open>Lookups in the collection\<close>

lemma find_append_fresh:
  "i \<notin> doc_id ` set xs \<Longrightarrow> doc_id d = i \<Longrightarrow> find (\<lambda>x. doc_id x = i) (xs @ [d]) = Some d"
  by (induction xs) auto

lemma find_distinct:
  "distinct (map doc_id xs) \<Longrightarrow> d \<in> set xs \<Longrightarrow> find (\<lambda>x. doc_id x = doc_id d) xs = Some d"
  by (induction xs) (auto simp: image_iff)

lemma find_None_iff_id: "find (\<lambda>x. doc_id x = i) xs = None \<longleftrightarrow> i \<notin> doc_id ` set xs"
  by (induction xs) auto

subsection \<open>JSON values and messages\<close>

lemma js_get_text_truthy: "js_get b k = JStr t \<Longrightarrow> truthy b"
  by (cases b) simp_all


lemma has_message_first: "has_message (JObj ((''message'', JStr m) # kvs))"
  by (simp add: has_message_def)

lemma has_message_message: "has_message (message m)"
  by (simp add: has_message_def message_def)

lemma has_message_server_error: "has_message (body (server_error e))"
  by (simp add: has_message_def server_error_def)

lemma toJSON_no_message: "\<not> has_message (toJSON d)"
  by (simp add: has_message_def toJSON_def)

lemma JArr_no_message: "\<not> has_message (JArr xs)"
  by (simp add: has_message_def)

lemma status_server_error: "status (server_error e) = 500"
  by (simp add: server_error_def)

subsection \<open>Each handler, by the outcome of its Store call\<close>

lemma Product_operations:
  "isValidObjectId Product = isValidId"
  "Product_find Product = store_find"
  "Product_findById Product = store_findById"
  "Product_create Product = store_create"
  "Product_findByIdAndUpdate Product = store_findByIdAndUpdate"
  "Product_findByIdAndDelete Product = store_findByIdAndDelete"
  by (simp_all add: Product_def)

lemma getProducts_outcome:
  assumes "Product_find M q (db w) = (r, s')"
  shows "getProducts M q w =
           ((case r of
               Inl err \<Rightarrow> server_error err
             | Inr products \<Rightarrow>
                 if products = [] then \<lparr>status = 404, body = message ''No products found''\<rparr>
                 else \<lparr>status = 200, body = JArr (map toJSON products)\<rparr>),
            \<lparr>db = s', calls = calls w @ [Find q]\<rparr>)"
  using assms by (simp add: getProducts_def await_def split: sum.splits)

lemma getProductById_outcome:
  assumes "Product_findById M i (db w) = (r, s')" and "isValidObjectId M i"
  shows "getProductById M i w =
           ((case r of
               Inl err \<Rightarrow> server_error err
             | Inr None \<Rightarrow> \<lparr>status = 404, body = message ''Product not found''\<rparr>
             | Inr (Some product) \<Rightarrow> \<lparr>status = 200, body = toJSON product\<rparr>),
            \<lparr>db = s', calls = calls w @ [FindById i]\<rparr>)"
  using assms by (simp add: getProductById_def await_def split: sum.splits option.splits)

lemma createProduct_outcome:
  assumes "Product_create M (JObj [(''name'', js_get b ''name''), (''brand'', js_get b ''brand''),
               (''category'', js_get b ''category''), (''price'', js_get b ''price''),
               (''inStock'', js_get b ''inStock'')]) (db w) = (r, s')"
    and "truthy b" "truthy (js_get b ''name'')" "truthy (js_get b ''brand'')"
        "truthy (js_get b ''category'')" "js_get b ''price'' \<noteq> JUndefined"
  shows "createProduct M b w =
           ((case r of
               Inl err \<Rightarrow> server_error err
             | Inr created \<Rightarrow>
                 \<lparr>status = 201,
                  body = JObj [(''message'', JStr ''Product created successfully''),
                               (''product'', toJSON created)]\<rparr>),
            \<lparr>db = s',
             calls = calls w @
               [Create (JObj [(''name'', js_get b ''name''), (''brand'', js_get b ''brand''),
                  (''category'', js_get b ''category''), (''price'', js_get b ''price''),
                  (''inStock'', js_get b ''inStock'')])]\<rparr>)"
  using assms by (simp add: createProduct_def await_def Let_def split: sum.splits)

lemma updateProduct_outcome:
  assumes "Product_findByIdAndUpdate M i b (db w) = (r, s')"
    and "isValidObjectId M i" "i \<noteq> []"
  shows "updateProduct M i b w =
           ((case r of
               Inl err \<Rightarrow> server_error err
             | Inr None \<Rightarrow> \<lparr>status = 404, body = message ''Product not found''\<rparr>
             | Inr (Some updatedProduct) \<Rightarrow>
                 \<lparr>status = 200,
                  body = JObj [(''message'', JStr ''Product updated successfully''),
                               (''product'', toJSON updatedProduct)]\<rparr>),
            \<lparr>db = s', calls = calls w @ [FindByIdAndUpdate i b]\<rparr>)"
  using assms by (simp add: updateProduct_def await_def split: sum.splits option.splits)

lemma deleteProduct_outcome:
  assumes "Product_findByIdAndDelete M i (db w) = (r, s')"
    and "isValidObjectId M i" "i \<noteq> []"
  shows "deleteProduct M i w =
           ((case r of
               Inl err \<Rightarrow> server_error err
             | Inr None \<Rightarrow> \<lparr>status = 404, body = message ''Product not found''\<rparr>
             | Inr (Some deleted) \<Rightarrow>
                 \<lparr>status = 200, body = message ''Product deleted successfully''\<rparr>),
            \<lparr>db = s', calls = calls w @ [FindByIdAndDelete i]\<rparr>)"
  using assms by (simp add: deleteProduct_def await_def split: sum.splits option.splits)

subsection \<open>The Store's validation\<close>

lemma problems_empty: "problems r = [] \<longleftrightarrow> (\<exists>x. r = Inr x)"
  by (cases r) (simp_all add: problems_def)

lemma supplied_undefined: "supplied check JUndefined = Inr None"
  by (simp add: supplied_def)

lemma overwrite_simps: "overwrite None old = old" "overwrite (Some x) old = x"
  by (simp_all add: overwrite_def)

lemma supplied_text:
  "supplied (check_text path msg) (JStr t) = Inr r \<Longrightarrow> overwrite r old = t"
  by (auto simp: supplied_def check_text_text overwrite_simps split: if_splits)

lemma supplied_price:
  "supplied check_price (JNum p) = Inr r \<Longrightarrow> overwrite r old = p"
  by (auto simp: supplied_def check_price_number check_price_null overwrite_simps split: if_splits)

lemma supplied_inStock:
  "supplied check_inStock (JBool x) = Inr r \<Longrightarrow> overwrite r old = Some x"
  "supplied check_inStock JNull = Inr r \<Longrightarrow> overwrite r old = None"
  by (auto simp: supplied_def check_inStock_simple overwrite_simps)

lemma store_create_valid:
  assumes "online s"
    and "js_get f ''name'' = JStr n" "n \<noteq> []"
    and "js_get f ''brand'' = JStr br" "br \<noteq> []"
    and "js_get f ''category'' = JStr c" "c \<noteq> []"
    and "js_get f ''price'' = JNum p" "0 \<le> p"
    and "check_inStock (js_get f ''inStock'') = Inr i"
  shows "store_create f s =
           (Inr \<lparr>doc_id = new_id (next_id s), name = n, brand = br, category = c,
                 price = p, inStock = i\<rparr>,
            s\<lparr>docs := docs s @ [\<lparr>doc_id = new_id (next_id s), name = n, brand = br,
                                  category = c, price = p, inStock = i\<rparr>],
              next_id := Suc (next_id s)\<rparr>)"
  using assms by (simp add: store_create_def check_text_text check_price_number check_price_null Let_def)




subsection \<open>A payload whose values are cast\<close>

lemma createProduct_casts:
  "createProduct Product
     (JObj [(''name'', JNum 123), (''brand'', JStr ''Acme''), (''category'', JStr ''Stationery''),
            (''price'', JStr ''12''), (''inStock'', JStr ''yes'')]) start =
     (\<lparr>status = 201,
       body = JObj [(''message'', JStr ''Product created successfully''),
                    (''product'',
                     toJSON \<lparr>doc_id = new_id 0, name = ''123'', brand = ''Acme'',
                             category = ''Stationery'', price = 12, inStock = Some True\<rparr>)]\<rparr>,
      \<lparr>db = \<lparr>docs = [\<lparr>doc_id = new_id 0, name = ''123'', brand = ''Acme'',
                        category = ''Stationery'', price = 12, inStock = Some True\<rparr>],
             next_id = Suc 0, online = True\<rparr>,
       calls = [Create (JObj [(''name'', JNum 123), (''brand'', JStr ''Acme''),
                              (''category'', JStr ''Stationery''), (''price'', JStr ''12''),
                              (''inStock'', JStr ''yes'')])]\<rparr>)"
  by (simp add: createProduct_def await_def Product_operations store_create_def start_def
        check_text_text check_text_cast check_price_cast check_inStock_cast Let_def)

subsection \<open>The two sample Stores are admissible\<close>

lemma store_ok_start: "store_ok (db start)"
  by (simp add: start_def store_ok_def)

lemma store_ok_shop: "store_ok (db shop)"
  by (simp add: shop_def store_ok_def pen_doc_def)

subsection \<open>Admissible collections stay admissible\<close>

lemma db_getProducts: "db (snd (getProducts Product q w)) = db w"
proof -
  have o: "Product_find Product q (db w) =
             (if \<not> online (db w) then Inl unreachable
              else Inr (filter (matches q) (docs (db w))), db w)"
    by (simp add: Product_operations store_find_def)
  show ?thesis unfolding getProducts_outcome [OF o] by simp
qed

lemma db_getProductById: "db (snd (getProductById Product i w)) = db w"
proof (cases "isValidObjectId Product i")
  case False
  then show ?thesis by (simp add: getProductById_def)
next
  case True
  have o: "Product_findById Product i (db w) =
             (if \<not> online (db w) then Inl unreachable
              else Inr (find (\<lambda>d. doc_id d = i) (docs (db w))), db w)"
    by (simp add: Product_operations store_findById_def)
  show ?thesis unfolding getProductById_outcome [OF o True] by simp
qed

lemma store_create_effect:
  assumes "store_create f s = (r, s')"
  shows "case r of
           Inl e \<Rightarrow> s' = s
         | Inr d \<Rightarrow> doc_id d = new_id (next_id s)
                    \<and> s' = s\<lparr>docs := docs s @ [d], next_id := Suc (next_id s)\<rparr>"
  using assms
  by (cases "check_text ''name'' ''Name Required'' (js_get f ''name'')";
      cases "check_text ''brand'' ''Brand Required'' (js_get f ''brand'')";
      cases "check_text ''category'' ''Category Required'' (js_get f ''category'')";
      cases "check_price (js_get f ''price'')";
      cases "check_inStock (js_get f ''inStock'')")
     (auto simp: store_create_def Let_def split: if_splits)

lemma store_ok_insert:
  assumes ok: "store_ok s" and room: "Suc (next_id s) < 16 ^ 24"
    and d: "doc_id d = new_id (next_id s)"
  shows "store_ok (s\<lparr>docs := docs s @ [d], next_id := Suc (next_id s)\<rparr>)"
proof -
  have fresh: "doc_id d \<notin> doc_id ` set (docs s)"
    using new_id_fresh [OF ok] d by simp
  have old: "list_all (\<lambda>x. doc_id x \<in> new_id ` {..<Suc (next_id s)}) (docs s)"
    using ok by (auto simp: store_ok_def list_all_iff less_Suc_eq)
  have new: "doc_id d \<in> new_id ` {..<Suc (next_id s)}"
    using d by auto
  have dist: "distinct (map doc_id (docs s))" using ok by (simp add: store_ok_def)
  show ?thesis
    using old new dist fresh room by (simp add: store_ok_def)
qed

lemma store_ok_createProduct:
  assumes ok: "store_ok (db w)" and room: "Suc (next_id (db w)) < 16 ^ 24"
  shows "store_ok (db (snd (createProduct Product b w)))"
proof (cases "truthy b \<and> truthy (js_get b ''name'') \<and> truthy (js_get b ''brand'')
              \<and> truthy (js_get b ''category'') \<and> js_get b ''price'' \<noteq> JUndefined")
  case False
  then show ?thesis using ok by (auto simp: createProduct_def Let_def)
next
  case True
  define f where "f = JObj [(''name'', js_get b ''name''), (''brand'', js_get b ''brand''),
             (''category'', js_get b ''category''), (''price'', js_get b ''price''),
             (''inStock'', js_get b ''inStock'')]"
  obtain r s' where o: "Product_create Product f (db w) = (r, s')"
    by (cases "Product_create Product f (db w)")
  from True have t: "truthy b" "truthy (js_get b ''name'')" "truthy (js_get b ''brand'')"
    "truthy (js_get b ''category'')" "js_get b ''price'' \<noteq> JUndefined" by simp_all
  have eff: "case r of
               Inl e \<Rightarrow> s' = db w
             | Inr d \<Rightarrow> doc_id d = new_id (next_id (db w))
                 \<and> s' = (db w)\<lparr>docs := docs (db w) @ [d], next_id := Suc (next_id (db w))\<rparr>"
    using o by (intro store_create_effect) (simp add: Product_operations)
  have "store_ok s'"
    using eff ok store_ok_insert [OF ok room] by (cases r) auto
  then show ?thesis
    unfolding createProduct_outcome [OF o [unfolded f_def] t] by simp
qed

lemma store_update_effect:
  assumes "store_findByIdAndUpdate i f s = (r, s')"
  shows "case r of
           Inr (Some d) \<Rightarrow> doc_id d = i
              \<and> s' = s\<lparr>docs := map (\<lambda>x. if doc_id x = i then d else x) (docs s)\<rparr>
         | _ \<Rightarrow> s' = s"
  using assms
  by (cases "supplied (check_text ''name'' ''Name Required'') (js_get f ''name'')";
      cases "supplied (check_text ''brand'' ''Brand Required'') (js_get f ''brand'')";
      cases "supplied (check_text ''category'' ''Category Required'') (js_get f ''category'')";
      cases "supplied check_price (js_get f ''price'')";
      cases "supplied check_inStock (js_get f ''inStock'')")
     (auto simp: store_findByIdAndUpdate_def Let_def find_Some_iff
           split: if_splits option.splits)

lemma store_ok_replace:
  assumes ok: "store_ok s" and d: "doc_id d = i"
  shows "store_ok (s\<lparr>docs := map (\<lambda>x. if doc_id x = i then d else x) (docs s)\<rparr>)"
proof -
  have ids: "map doc_id (map (\<lambda>x. if doc_id x = i then d else x) xs) = map doc_id xs" for xs
    using d by (induction xs) auto
  have conv: "list_all (\<lambda>x. doc_id x \<in> S) ys = list_all (\<lambda>j. j \<in> S) (map doc_id ys)"
    for S and ys :: "document list"
    by (induction ys) simp_all
  have "list_all (\<lambda>j. j \<in> new_id ` {..<next_id s}) (map doc_id (docs s))"
    using ok by (simp add: store_ok_def conv)
  then have mem: "list_all (\<lambda>x. doc_id x \<in> new_id ` {..<next_id s})
               (map (\<lambda>x. if doc_id x = i then d else x) (docs s))"
    by (simp only: conv ids)
  show ?thesis
    using ok mem by (simp add: store_ok_def ids del: map_map)
qed

lemma store_ok_updateProduct:
  assumes ok: "store_ok (db w)"
  shows "store_ok (db (snd (updateProduct Product i b w)))"
proof (cases "isValidObjectId Product i \<and> i \<noteq> []")
  case False
  then show ?thesis using ok by (auto simp: updateProduct_def)
next
  case True
  then have v: "isValidObjectId Product i" and ne: "i \<noteq> []" by simp_all
  obtain r s' where o: "Product_findByIdAndUpdate Product i b (db w) = (r, s')"
    by (cases "Product_findByIdAndUpdate Product i b (db w)")
  have eff: "case r of
               Inr (Some d) \<Rightarrow> doc_id d = i
                 \<and> s' = (db w)\<lparr>docs := map (\<lambda>x. if doc_id x = i then d else x) (docs (db w))\<rparr>
             | _ \<Rightarrow> s' = db w"
    using o by (intro store_update_effect) (simp add: Product_operations)
  have "store_ok s'"
    using eff ok store_ok_replace [OF ok]
    by (cases r) (auto split: option.splits)
  then show ?thesis
    unfolding updateProduct_outcome [OF o v ne] by simp
qed

lemma store_ok_remove:
  assumes ok: "store_ok s"
  shows "store_ok (s\<lparr>docs := remove1 d (docs s)\<rparr>)"
proof -
  have sub: "set (remove1 d (docs s)) \<subseteq> set (docs s)" by (rule set_remove1_subset)
  have dd: "distinct (docs s)" and inj: "inj_on doc_id (set (docs s))"
    using ok by (simp_all add: store_ok_def distinct_map)
  have "distinct (map doc_id (remove1 d (docs s)))"
    using dd inj sub by (simp add: distinct_map inj_on_subset)
  moreover have "list_all (\<lambda>x. doc_id x \<in> new_id ` {..<next_id s}) (remove1 d (docs s))"
    using ok sub by (auto simp: store_ok_def list_all_iff)
  ultimately show ?thesis using ok by (simp add: store_ok_def)
qed

lemma store_ok_deleteProduct:
  assumes ok: "store_ok (db w)"
  shows "store_ok (db (snd (deleteProduct Product i w)))"
proof (cases "isValidObjectId Product i \<and> i \<noteq> []")
  case False
  then show ?thesis using ok by (auto simp: deleteProduct_def)
next
  case True
  then have v: "isValidObjectId Product i" and ne: "i \<noteq> []" by simp_all
  obtain r s' where o: "Product_findByIdAndDelete Product i (db w) = (r, s')"
    by (cases "Product_findByIdAndDelete Product i (db w)")
  have "store_ok s'"
    using o ok store_ok_remove [OF ok]
    by (auto simp: Product_operations store_findByIdAndDelete_def
             split: if_splits option.splits)
  then show ?thesis
    unfolding deleteProduct_outcome [OF o v ne] by simp
qed

section \<open>Create: the handler's own validation\<close>

text \<open>
  Claim C1, as amended. Create answers 400 exactly when the body is falsy (absent), or
  \<open>name\<close>, \<open>brand\<close> or \<open>category\<close> is falsy, or \<open>price\<close> is undefined, and
  then it leaves the world as it was (no Store call) and its message names the missing
  requirement. The falsy values are undefined, null, the empty text, false and 0. In
  every other case, so also with price 0 and the other fields not empty, the handler's
  validation passes: the Store's insert is the one call made, with the five fields read
  from the body, and its outcome decides the answer, 201 with the created Product or 500
  with the error it threw.
\<close>

theorem createProduct_validation:
  "(status (fst (createProduct M b w)) = 400
      \<longleftrightarrow> (\<not> truthy b \<or> \<not> truthy (js_get b ''name'') \<or> \<not> truthy (js_get b ''brand'')
           \<or> \<not> truthy (js_get b ''category'') \<or> js_get b ''price'' = JUndefined))
   \<and> (\<not> truthy b \<longrightarrow>
        createProduct M b w =
          (\<lparr>status = 400, body = message ''Product data is required''\<rparr>, w))
   \<and> (truthy b \<and> (\<not> truthy (js_get b ''name'') \<or> \<not> truthy (js_get b ''brand'')
                   \<or> \<not> truthy (js_get b ''category'') \<or> js_get b ''price'' = JUndefined) \<longrightarrow>
        createProduct M b w =
          (\<lparr>status = 400, body = message ''Name, brand, category, and price are required''\<rparr>, w))
   \<and> (truthy b \<and> truthy (js_get b ''name'') \<and> truthy (js_get b ''brand'')
        \<and> truthy (js_get b ''category'') \<and> js_get b ''price'' \<noteq> JUndefined \<longrightarrow>
        createProduct M b w =
          (case Product_create M
                  (JObj [(''name'', js_get b ''name''), (''brand'', js_get b ''brand''),
                         (''category'', js_get b ''category''), (''price'', js_get b ''price''),
                         (''inStock'', js_get b ''inStock'')]) (db w) of
             (r, s') \<Rightarrow>
               ((case r of
                   Inl err \<Rightarrow> server_error err
                 | Inr created \<Rightarrow>
                     \<lparr>status = 201,
                      body = JObj [(''message'', JStr ''Product created successfully''),
                                   (''product'', toJSON created)]\<rparr>),
                \<lparr>db = s',
                 calls = calls w @
                   [Create (JObj [(''name'', js_get b ''name''), (''brand'', js_get b ''brand''),
                      (''category'', js_get b ''category''), (''price'', js_get b ''price''),
                      (''inStock'', js_get b ''inStock'')])]\<rparr>)))
   \<and> \<not> truthy JUndefined \<and> \<not> truthy JNull \<and> (truthy (JStr t) \<longleftrightarrow> t \<noteq> [])
   \<and> (truthy (JBool x) \<longleftrightarrow> x) \<and> (truthy (JNum n) \<longleftrightarrow> n \<noteq> 0)
   \<and> truthy (JArr xs) \<and> truthy (JObj kvs)"
proof -
  let ?f = "JObj [(''name'', js_get b ''name''), (''brand'', js_get b ''brand''),
                  (''category'', js_get b ''category''), (''price'', js_get b ''price''),
                  (''inStock'', js_get b ''inStock'')]"
  let ?pass = "truthy b \<and> truthy (js_get b ''name'') \<and> truthy (js_get b ''brand'')
               \<and> truthy (js_get b ''category'') \<and> js_get b ''price'' \<noteq> JUndefined"
  obtain r s' where o: "Product_create M ?f (db w) = (r, s')"
    by (cases "Product_create M ?f (db w)")
  have pass: "createProduct M b w =
      ((case r of
          Inl err \<Rightarrow> server_error err
        | Inr created \<Rightarrow>
            \<lparr>status = 201,
             body = JObj [(''message'', JStr ''Product created successfully''),
                          (''product'', toJSON created)]\<rparr>),
       \<lparr>db = s', calls = calls w @ [Create ?f]\<rparr>)" if "?pass"
    using that by (intro createProduct_outcome [OF o]) simp_all
  have not400: "status (fst (createProduct M b w)) \<noteq> 400" if "?pass"
    unfolding pass [OF that] by (cases r) (simp_all add: status_server_error)
  have absent: "createProduct M b w =
      (\<lparr>status = 400, body = message ''Product data is required''\<rparr>, w)" if "\<not> truthy b"
    using that by (simp add: createProduct_def)
  have missing: "createProduct M b w =
      (\<lparr>status = 400, body = message ''Name, brand, category, and price are required''\<rparr>, w)"
    if "truthy b" and "\<not> truthy (js_get b ''name'') \<or> \<not> truthy (js_get b ''brand'')
                       \<or> \<not> truthy (js_get b ''category'') \<or> js_get b ''price'' = JUndefined"
    using that by (auto simp: createProduct_def Let_def)
  have iff: "status (fst (createProduct M b w)) = 400 \<longleftrightarrow> \<not> ?pass"
  proof (cases "?pass")
    case True
    then show ?thesis using not400 by blast
  next
    case False
    then have "status (fst (createProduct M b w)) = 400"
      using absent missing by (cases "truthy b") auto
    with False show ?thesis by blast
  qed
  have passed: "?pass \<longrightarrow> createProduct M b w =
      (case Product_create M ?f (db w) of
         (r, s') \<Rightarrow>
           ((case r of
               Inl err \<Rightarrow> server_error err
             | Inr created \<Rightarrow>
                 \<lparr>status = 201,
                  body = JObj [(''message'', JStr ''Product created successfully''),
                               (''product'', toJSON created)]\<rparr>),
            \<lparr>db = s', calls = calls w @ [Create ?f]\<rparr>))"
    using pass by (simp add: o)
  show ?thesis
    apply (intro conjI)
    subgoal using iff by blast
    subgoal using absent by blast
    subgoal using missing by blast
    subgoal using passed by blast
    apply simp_all
    done
qed

theorem createProduct_validation_witness:
  "createProduct Product (pen (JNum 0)) start =
     (\<lparr>status = 201,
       body = JObj [(''message'', JStr ''Product created successfully''),
                    (''product'',
                     toJSON \<lparr>doc_id = new_id 0, name = ''Pen'', brand = ''Acme'',
                             category = ''Stationery'', price = 0, inStock = Some True\<rparr>)]\<rparr>,
      \<lparr>db = \<lparr>docs = [\<lparr>doc_id = new_id 0, name = ''Pen'', brand = ''Acme'',
                        category = ''Stationery'', price = 0, inStock = Some True\<rparr>],
             next_id = Suc 0, online = True\<rparr>,
       calls = [Create (JObj [(''name'', JStr ''Pen''), (''brand'', JStr ''Acme''),
                              (''category'', JStr ''Stationery''), (''price'', JNum 0),
                              (''inStock'', JUndefined)])]\<rparr>)
   \<and> status (fst (createProduct Product (pen (JNum 0)) start)) \<noteq> 400"
  using createProduct_validation [of Product "pen (JNum 0)" start]
  by (simp add: pen_def start_def Product_operations store_create_def check_text_text
        check_price_number check_inStock_simple Let_def)

text \<open>
  The claim as stated fails at a payload whose \<open>name\<close> is false: the name is neither
  absent nor empty, the other fields are in order, and Create answers 400 without a
  Store call.
\<close>

theorem false_name_counterexample:
  "createProduct Product
     (JObj [(''name'', JBool False), (''brand'', JStr ''Acme''),
            (''category'', JStr ''Stationery''), (''price'', JNum 1)]) start =
     (\<lparr>status = 400, body = message ''Name, brand, category, and price are required''\<rparr>, start)
   \<and> JBool False \<noteq> JUndefined \<and> JBool False \<noteq> JNull \<and> JBool False \<noteq> JStr []"
  by (simp add: createProduct_def)

section \<open>Create, then fetch\<close>

text \<open>
  Claim C2. On a reachable Store with an admissible collection, a Create whose payload has
  non-empty texts for \<open>name\<close>, \<open>brand\<close> and \<open>category\<close>, a price that is a number
  not below 0, and \<open>inStock\<close> absent or a boolean, answers 201 with the persisted
  Product: its four fields are the payload's, its \<open>inStock\<close> is true when the payload
  has none (and the payload's otherwise), its identifier is not empty and is borne by no
  Product stored before. The collection grows by that Product, and GetByOne with the
  assigned identifier, run next, answers 200 with the same Product.
\<close>

theorem create_then_get:
  assumes ok: "store_ok (db w)" and on: "online (db w)"
    and n: "js_get b ''name'' = JStr n" "n \<noteq> []"
    and br: "js_get b ''brand'' = JStr br" "br \<noteq> []"
    and c: "js_get b ''category'' = JStr c" "c \<noteq> []"
    and p: "js_get b ''price'' = JNum p" "0 \<le> p"
    and i: "js_get b ''inStock'' = JUndefined \<or> js_get b ''inStock'' = JBool x"
  shows "\<exists>d. fst (createProduct Product b w) =
               \<lparr>status = 201,
                body = JObj [(''message'', JStr ''Product created successfully''),
                             (''product'', toJSON d)]\<rparr>
             \<and> name d = n \<and> brand d = br \<and> category d = c \<and> price d = p
             \<and> (js_get b ''inStock'' = JUndefined \<longrightarrow> inStock d = Some True)
             \<and> (js_get b ''inStock'' = JBool x \<longrightarrow> inStock d = Some x)
             \<and> doc_id d \<noteq> [] \<and> doc_id d \<notin> doc_id ` set (docs (db w))
             \<and> docs (db (snd (createProduct Product b w))) = docs (db w) @ [d]
             \<and> fst (getProductById Product (doc_id d) (snd (createProduct Product b w))) =
                 \<lparr>status = 200, body = toJSON d\<rparr>"
proof -
  define st where "st = (if js_get b ''inStock'' = JUndefined then True else x)"
  define d where "d = \<lparr>doc_id = new_id (next_id (db w)), name = n, brand = br, category = c,
                        price = p, inStock = Some st\<rparr>"
  define f where "f = JObj [(''name'', JStr n), (''brand'', JStr br), (''category'', JStr c),
                            (''price'', JNum p), (''inStock'', js_get b ''inStock'')]"
  have chk: "check_inStock (js_get f ''inStock'') = Inr (Some st)"
    using i by (auto simp: f_def st_def check_inStock_simple)
  have sc: "store_create f (db w) =
              (Inr d, (db w)\<lparr>docs := docs (db w) @ [d], next_id := Suc (next_id (db w))\<rparr>)"
    unfolding d_def
    by (rule store_create_valid [OF on _ n(2) _ br(2) _ c(2) _ p(2) chk])
       (simp_all add: f_def)
  have tb: "truthy b" using n(1) by (rule js_get_text_truthy)
  have cp: "createProduct Product b w =
              (\<lparr>status = 201,
                body = JObj [(''message'', JStr ''Product created successfully''),
                             (''product'', toJSON d)]\<rparr>,
               \<lparr>db = (db w)\<lparr>docs := docs (db w) @ [d], next_id := Suc (next_id (db w))\<rparr>,
                calls = calls w @ [Create f]\<rparr>)"
    using tb sc n br c p
    by (simp add: createProduct_def Product_operations await_def Let_def f_def [symmetric])
  have fresh: "doc_id d \<notin> doc_id ` set (docs (db w))"
    using new_id_fresh [OF ok] by (simp add: d_def)
  have fnd: "find (\<lambda>x. doc_id x = doc_id d) (docs (db w) @ [d]) = Some d"
    using fresh by (rule find_append_fresh) simp
  have valid: "isValidId (doc_id d)" by (simp add: d_def new_id_valid)
  have gp: "fst (getProductById Product (doc_id d) (snd (createProduct Product b w))) =
              \<lparr>status = 200, body = toJSON d\<rparr>"
    using fnd valid on
    by (simp add: cp getProductById_def Product_operations await_def store_findById_def)
  have fields: "name d = n \<and> brand d = br \<and> category d = c \<and> price d = p
                \<and> (js_get b ''inStock'' = JUndefined \<longrightarrow> inStock d = Some True)
                \<and> (js_get b ''inStock'' = JBool x \<longrightarrow> inStock d = Some x)"
    by (auto simp: d_def st_def)
  have ne: "doc_id d \<noteq> []" by (simp add: d_def new_id_not_empty)
  show ?thesis
    using cp gp fields fresh ne by (intro exI [of _ d]) simp
qed

theorem create_then_get_witness:
  "\<exists>d. fst (createProduct Product (pen (JNum (3 / 2))) start) =
          \<lparr>status = 201,
           body = JObj [(''message'', JStr ''Product created successfully''),
                        (''product'', toJSON d)]\<rparr>
        \<and> name d = ''Pen'' \<and> brand d = ''Acme'' \<and> category d = ''Stationery''
        \<and> price d = 3 / 2 \<and> inStock d = Some True \<and> doc_id d \<noteq> []
        \<and> fst (getProductById Product (doc_id d)
                  (snd (createProduct Product (pen (JNum (3 / 2))) start))) =
            \<lparr>status = 200, body = toJSON d\<rparr>"
  using create_then_get [of start "pen (JNum (3 / 2))" "''Pen''" "''Acme''" "''Stationery''"
                            "3 / 2" True]
  apply (simp add: pen_def store_ok_start)
  apply (simp add: start_def)
  apply (elim exE)
  subgoal for d by (rule exI [of _ d]) simp
  done

section \<open>Malformed identifiers\<close>

text \<open>
  Claim C3, as amended. For an identifier the validity check refuses, GetByOne, Update and
  Delete each answer 400 and leave the world as it was (no Store call). The message is
  \<^verbatim>\<open>Invalid product ID\<close>, except that Update and Delete answer the empty identifier
  with \<^verbatim>\<open>Id Parameter Missing\<close>: their check for a missing identifier comes first.
\<close>

theorem invalid_id_rejected:
  "\<not> isValidObjectId M i \<Longrightarrow>
     getProductById M i w = (\<lparr>status = 400, body = message ''Invalid product ID''\<rparr>, w)
   \<and> updateProduct M i b w =
       (\<lparr>status = 400,
         body = message (if i = [] then ''Id Parameter Missing'' else ''Invalid product ID'')\<rparr>, w)
   \<and> deleteProduct M i w =
       (\<lparr>status = 400,
         body = message (if i = [] then ''Id Parameter Missing'' else ''Invalid product ID'')\<rparr>, w)"
  by (simp add: getProductById_def updateProduct_def deleteProduct_def)

theorem invalid_id_rejected_witness:
  "getProductById Product ''abc'' start = (\<lparr>status = 400, body = message ''Invalid product ID''\<rparr>, start)
   \<and> updateProduct Product ''abc'' (pen (JNum 2)) start =
       (\<lparr>status = 400, body = message ''Invalid product ID''\<rparr>, start)
   \<and> deleteProduct Product ''abc'' start =
       (\<lparr>status = 400, body = message ''Invalid product ID''\<rparr>, start)"
  using invalid_id_rejected [of Product "''abc''" start "pen (JNum 2)"]
  by (simp add: Product_operations isValidId_def)

text \<open>
  The claim as stated fails at the empty identifier, which the validity check refuses:
  Update and Delete do not answer it with \<^verbatim>\<open>Invalid product ID\<close>.
\<close>

theorem empty_id_message_counterexample:
  "\<not> isValidObjectId Product []
   \<and> body (fst (updateProduct Product [] (pen (JNum 2)) start)) = message ''Id Parameter Missing''
   \<and> body (fst (deleteProduct Product [] start)) = message ''Id Parameter Missing''
   \<and> message ''Id Parameter Missing'' \<noteq> message ''Invalid product ID''"
  by (simp add: Product_operations isValidId_def updateProduct_def deleteProduct_def message_def)

section \<open>Create with a negative price\<close>



section \<open>List\<close>

text \<open>
  Claim C5. List makes one \<open>find\<close> call and leaves the collection alone. On a
  reachable Store it answers 200 with exactly the stored Products that match the filter,
  in storage order, when there is at least one, and 404 with
  \<^verbatim>\<open>No products found\<close> when there is none (so also on an empty collection). With
  no filters every stored Product matches; a Product matches a filter when each of its
  bindings equals the Product's field (AND semantics). An unreachable Store gives the
  server error.
\<close>

theorem getProducts_lists_matches:
  "getProducts Product q w =
     ((if \<not> online (db w) then server_error unreachable
       else if filter (matches q) (docs (db w)) = []
       then \<lparr>status = 404, body = message ''No products found''\<rparr>
       else \<lparr>status = 200, body = JArr (map toJSON (filter (matches q) (docs (db w))))\<rparr>),
      \<lparr>db = db w, calls = calls w @ [Find q]\<rparr>)
   \<and> filter (matches (JObj [])) (docs (db w)) = docs (db w)
   \<and> (matches (JObj kvs) d \<longleftrightarrow> (\<forall>(k, v) \<in> set kvs. js_get (toJSON d) k = v))"
proof -
  have o: "Product_find Product q (db w) =
             (if \<not> online (db w) then Inl unreachable
              else Inr (filter (matches q) (docs (db w))), db w)"
    by (simp add: Product_operations store_find_def)
  have all: "filter (matches (JObj [])) (docs (db w)) = docs (db w)"
    by (simp add: matches_def)
  have conj: "matches (JObj kvs) d \<longleftrightarrow> (\<forall>(k, v) \<in> set kvs. js_get (toJSON d) k = v)"
    by (simp add: matches_def list_all_iff)
  show ?thesis
    unfolding getProducts_outcome [OF o]
    using all conj by simp
qed

theorem getProducts_lists_matches_witness:
  "fst (getProducts Product (JObj [(''brand'', JStr ''Acme'')]) shop) =
     \<lparr>status = 200, body = JArr [toJSON pen_doc]\<rparr>
   \<and> fst (getProducts Product (JObj [(''brand'', JStr ''Acme''), (''name'', JStr ''Ink'')]) shop) =
     \<lparr>status = 404, body = message ''No products found''\<rparr>
   \<and> fst (getProducts Product (JObj []) start) =
     \<lparr>status = 404, body = message ''No products found''\<rparr>"
  using getProducts_lists_matches [of "JObj [(''brand'', JStr ''Acme'')]" shop
          "[(''brand'', JStr ''Acme'')]" pen_doc]
        getProducts_lists_matches [of "JObj [(''brand'', JStr ''Acme''), (''name'', JStr ''Ink'')]"
          shop "[(''brand'', JStr ''Acme''), (''name'', JStr ''Ink'')]" pen_doc]
        getProducts_lists_matches [of "JObj []" start "[]" pen_doc]
  by (simp add: shop_def start_def pen_doc_def toJSON_def)

section \<open>Update overwrites the supplied fields only\<close>

text \<open>
  Claim C6. On a reachable Store with an admissible collection, an Update of a stored
  Product whose payload passes the Store's validation answers 200 with the Product as
  updated, and stores it in the place of the old one. The identifier is kept; a field
  the payload omits keeps its prior value; a field the payload supplies takes the
  supplied value.
\<close>

theorem update_changes_only_supplied_fields:
  assumes ok: "store_ok (db w)" and on: "online (db w)"
    and old: "old \<in> set (docs (db w))" and valid: "update_problems b = []"
  shows "\<exists>d. updateProduct Product (doc_id old) b w =
               (\<lparr>status = 200,
                 body = JObj [(''message'', JStr ''Product updated successfully''),
                              (''product'', toJSON d)]\<rparr>,
                \<lparr>db = (db w)\<lparr>docs := map (\<lambda>x. if doc_id x = doc_id old then d else x)
                                          (docs (db w))\<rparr>,
                 calls = calls w @ [FindByIdAndUpdate (doc_id old) b]\<rparr>)
             \<and> doc_id d = doc_id old
             \<and> (js_get b ''name'' = JUndefined \<longrightarrow> name d = name old)
             \<and> (\<forall>t. js_get b ''name'' = JStr t \<longrightarrow> name d = t)
             \<and> (js_get b ''brand'' = JUndefined \<longrightarrow> brand d = brand old)
             \<and> (\<forall>t. js_get b ''brand'' = JStr t \<longrightarrow> brand d = t)
             \<and> (js_get b ''category'' = JUndefined \<longrightarrow> category d = category old)
             \<and> (\<forall>t. js_get b ''category'' = JStr t \<longrightarrow> category d = t)
             \<and> (js_get b ''price'' = JUndefined \<longrightarrow> price d = price old)
             \<and> (\<forall>p. js_get b ''price'' = JNum p \<longrightarrow> price d = p)
             \<and> (js_get b ''inStock'' = JUndefined \<longrightarrow> inStock d = inStock old)
             \<and> (\<forall>x. js_get b ''inStock'' = JBool x \<longrightarrow> inStock d = Some x)
             \<and> (js_get b ''inStock'' = JNull \<longrightarrow> inStock d = None)"
proof -
  from valid obtain n br c p i where
    n: "supplied (check_text ''name'' ''Name Required'') (js_get b ''name'') = Inr n" and
    br: "supplied (check_text ''brand'' ''Brand Required'') (js_get b ''brand'') = Inr br" and
    c: "supplied (check_text ''category'' ''Category Required'') (js_get b ''category'') = Inr c" and
    p: "supplied check_price (js_get b ''price'') = Inr p" and
    i: "supplied check_inStock (js_get b ''inStock'') = Inr i"
    unfolding update_problems_def by (auto simp: problems_empty)
  define d where "d = \<lparr>doc_id = doc_id old,
                        name = overwrite n (name old),
                        brand = overwrite br (brand old),
                        category = overwrite c (category old),
                        price = overwrite p (price old),
                        inStock = overwrite i (inStock old)\<rparr>"
  have dist: "distinct (map doc_id (docs (db w)))" using ok by (simp add: store_ok_def)
  have fnd: "find (\<lambda>x. doc_id x = doc_id old) (docs (db w)) = Some old"
    using dist old by (rule find_distinct)
  have v: "isValidObjectId Product (doc_id old)"
    using stored_id_valid(1) [OF ok old] by (simp add: Product_operations)
  have ne: "doc_id old \<noteq> []" using stored_id_valid(2) [OF ok old] .
  have o: "Product_findByIdAndUpdate Product (doc_id old) b (db w) =
             (Inr (Some d),
              (db w)\<lparr>docs := map (\<lambda>x. if doc_id x = doc_id old then d else x) (docs (db w))\<rparr>)"
    using on fnd
    by (simp add: Product_operations store_findByIdAndUpdate_def n br c p i d_def Let_def)
  note upd = updateProduct_outcome [OF o v ne]
  have f1: "js_get b ''name'' = JUndefined \<longrightarrow> name d = name old"
    using n by (auto simp: supplied_undefined d_def overwrite_simps)
  have f2: "\<forall>t. js_get b ''name'' = JStr t \<longrightarrow> name d = t"
    using n by (auto simp: d_def supplied_text)
  have f3: "js_get b ''brand'' = JUndefined \<longrightarrow> brand d = brand old"
    using br by (auto simp: supplied_undefined d_def overwrite_simps)
  have f4: "\<forall>t. js_get b ''brand'' = JStr t \<longrightarrow> brand d = t"
    using br by (auto simp: d_def supplied_text)
  have f5: "js_get b ''category'' = JUndefined \<longrightarrow> category d = category old"
    using c by (auto simp: supplied_undefined d_def overwrite_simps)
  have f6: "\<forall>t. js_get b ''category'' = JStr t \<longrightarrow> category d = t"
    using c by (auto simp: d_def supplied_text)
  have f7: "js_get b ''price'' = JUndefined \<longrightarrow> price d = price old"
    using p by (auto simp: supplied_undefined d_def overwrite_simps)
  have f8: "\<forall>q. js_get b ''price'' = JNum q \<longrightarrow> price d = q"
    using p by (auto simp: d_def supplied_price)
  have f9: "js_get b ''inStock'' = JUndefined \<longrightarrow> inStock d = inStock old"
    using i by (auto simp: supplied_undefined d_def overwrite_simps)
  have f10: "\<forall>x. js_get b ''inStock'' = JBool x \<longrightarrow> inStock d = Some x"
    using i by (auto simp: d_def supplied_inStock)
  have f11: "js_get b ''inStock'' = JNull \<longrightarrow> inStock d = None"
    using i by (auto simp: d_def supplied_inStock)
  have id: "doc_id d = doc_id old" by (simp add: d_def)
  show ?thesis
    apply (rule exI [of _ d])
    apply (intro conjI)
    using upd apply simp
    using id f1 f2 f3 f4 f5 f6 f7 f8 f9 f10 f11 apply blast+
    done
qed

theorem update_changes_only_supplied_fields_witness:
  "\<exists>d. fst (updateProduct Product (new_id 0) (JObj [(''price'', JNum 2)]) shop) =
          \<lparr>status = 200,
           body = JObj [(''message'', JStr ''Product updated successfully''),
                        (''product'', toJSON d)]\<rparr>
        \<and> doc_id d = new_id 0 \<and> name d = ''Pen'' \<and> brand d = ''Acme''
        \<and> category d = ''Stationery'' \<and> price d = 2 \<and> inStock d = Some True"
  using update_changes_only_supplied_fields [of shop pen_doc "JObj [(''price'', JNum 2)]"]
        store_ok_shop
  by (auto simp: shop_def pen_doc_def update_problems_def supplied_def
        check_price_number check_price_null problems_def)

section \<open>Update leaves validation to the Store\<close>

text \<open>
  Claim C7. For an identifier that is present and passes the validity check, Update
  calls the Store's update with the payload as it came, whatever it holds, and never
  answers 400. A failure the Store raises during the write (a validation failure among
  them) is answered with 500 and the failure's text; a Store that finds no Product with
  that identifier is answered with 404.
\<close>

theorem updateProduct_defers_validation:
  assumes v: "isValidObjectId M i" and ne: "i \<noteq> []"
  shows "calls (snd (updateProduct M i b w)) = calls w @ [FindByIdAndUpdate i b]
       \<and> status (fst (updateProduct M i b w)) \<noteq> 400
       \<and> (\<forall>e s'. Product_findByIdAndUpdate M i b (db w) = (Inl e, s')
             \<longrightarrow> fst (updateProduct M i b w) = server_error e)
       \<and> (\<forall>s'. Product_findByIdAndUpdate M i b (db w) = (Inr None, s')
             \<longrightarrow> fst (updateProduct M i b w) =
                   \<lparr>status = 404, body = message ''Product not found''\<rparr>)"
proof -
  obtain r s' where o: "Product_findByIdAndUpdate M i b (db w) = (r, s')"
    by (cases "Product_findByIdAndUpdate M i b (db w)")
  note u = updateProduct_outcome [OF o v ne]
  show ?thesis
    unfolding u o
    by (simp add: server_error_def split: sum.splits option.splits)
qed

theorem updateProduct_defers_validation_witness:
  "calls (snd (updateProduct Product (new_id 0) (JObj [(''price'', JNum (- 1))]) shop)) =
     [FindByIdAndUpdate (new_id 0) (JObj [(''price'', JNum (- 1))])]
   \<and> fst (updateProduct Product (new_id 0) (JObj [(''price'', JNum (- 1))]) shop) =
       server_error ''ValidationError: price: Price cannot be negative''
   \<and> fst (updateProduct Product (new_id 0) (JObj [(''name'', JStr [])]) shop) =
       server_error ''ValidationError: name: Name Required''
   \<and> fst (updateProduct Product (new_id 0) (JObj [(''price'', JNum 2)]) start) =
       \<lparr>status = 404, body = message ''Product not found''\<rparr>"
  using updateProduct_defers_validation [of Product "new_id 0" "JObj [(''price'', JNum (- 1))]" shop]
        updateProduct_defers_validation [of Product "new_id 0" "JObj [(''name'', JStr [])]" shop]
        updateProduct_defers_validation [of Product "new_id 0" "JObj [(''price'', JNum 2)]" start]
  by (simp add: Product_operations new_id_valid new_id_not_empty store_findByIdAndUpdate_def
        shop_def start_def supplied_def check_price_number check_text_text update_problems_def
        update_error_def update_cast_fails_def cast_fails_def castNumber_def castString_def
        id_of_document_def
        problems_def validation_failed_def Let_def)

section \<open>Delete, then fetch\<close>

text \<open>
  Claim C8. On a reachable Store with an admissible collection, Delete of a stored
  Product (every stored Product was created by Create) answers 200 with the message
  \<^verbatim>\<open>Product deleted successfully\<close>, and GetByOne with that identifier, run next,
  answers 404 with \<^verbatim>\<open>Product not found\<close>.
\<close>

theorem delete_then_get:
  assumes ok: "store_ok (db w)" and on: "online (db w)" and d: "d \<in> set (docs (db w))"
  shows "fst (deleteProduct Product (doc_id d) w) =
           \<lparr>status = 200, body = message ''Product deleted successfully''\<rparr>
       \<and> fst (getProductById Product (doc_id d) (snd (deleteProduct Product (doc_id d) w))) =
           \<lparr>status = 404, body = message ''Product not found''\<rparr>"
proof -
  have dist: "distinct (map doc_id (docs (db w)))" using ok by (simp add: store_ok_def)
  have fnd: "find (\<lambda>x. doc_id x = doc_id d) (docs (db w)) = Some d"
    using dist d by (rule find_distinct)
  have v: "isValidObjectId Product (doc_id d)"
    using stored_id_valid(1) [OF ok d] by (simp add: Product_operations)
  have ne: "doc_id d \<noteq> []" using stored_id_valid(2) [OF ok d] .
  have o: "Product_findByIdAndDelete Product (doc_id d) (db w) =
             (Inr (Some d), (db w)\<lparr>docs := remove1 d (docs (db w))\<rparr>)"
    using on fnd by (simp add: Product_operations store_findByIdAndDelete_def)
  note del = deleteProduct_outcome [OF o v ne]
  have gone: "doc_id d \<notin> doc_id ` set (remove1 d (docs (db w)))"
  proof
    assume "doc_id d \<in> doc_id ` set (remove1 d (docs (db w)))"
    then obtain x where x: "x \<in> set (remove1 d (docs (db w)))" "doc_id x = doc_id d" by auto
    have dd: "distinct (docs (db w))" using dist by (simp add: distinct_map)
    from x(1) dd have "x \<in> set (docs (db w))" "x \<noteq> d" by auto
    with x(2) d dist show False by (auto simp: distinct_map inj_on_def)
  qed
  have o2: "Product_findById Product (doc_id d) ((db w)\<lparr>docs := remove1 d (docs (db w))\<rparr>) =
              (Inr None, (db w)\<lparr>docs := remove1 d (docs (db w))\<rparr>)"
    using on gone by (simp add: Product_operations store_findById_def find_None_iff_id)
  have get: "fst (getProductById Product (doc_id d)
                \<lparr>db = (db w)\<lparr>docs := remove1 d (docs (db w))\<rparr>,
                 calls = calls w @ [FindByIdAndDelete (doc_id d)]\<rparr>) =
              \<lparr>status = 404, body = message ''Product not found''\<rparr>"
    by (subst getProductById_outcome [where r = "Inr None"
          and s' = "(db w)\<lparr>docs := remove1 d (docs (db w))\<rparr>"])
       (simp_all add: o2 v)
  show ?thesis unfolding del using get by simp
qed

theorem delete_then_get_witness:
  "fst (deleteProduct Product (new_id 0) shop) =
     \<lparr>status = 200, body = message ''Product deleted successfully''\<rparr>
   \<and> fst (getProductById Product (new_id 0) (snd (deleteProduct Product (new_id 0) shop))) =
     \<lparr>status = 404, body = message ''Product not found''\<rparr>"
  using delete_then_get [of shop pen_doc] store_ok_shop
  by (simp add: shop_def pen_doc_def)

section \<open>The shape of every response\<close>

lemma getProducts_shape:
  "(\<forall>e. fst (Product_find M q (db w)) = Inl e \<longrightarrow>
        fst (getProducts M q w) = server_error e)
   \<and> (fst (Product_find M q (db w)) = Inr [] \<longrightarrow>
        fst (getProducts M q w) = \<lparr>status = 404, body = message ''No products found''\<rparr>)
   \<and> (\<forall>ds. fst (Product_find M q (db w)) = Inr ds \<and> ds \<noteq> [] \<longrightarrow>
        fst (getProducts M q w) = \<lparr>status = 200, body = JArr (map toJSON ds)\<rparr>)
   \<and> (status (fst (getProducts M q w)) = 200 \<longrightarrow>
        \<not> has_message (body (fst (getProducts M q w)))
        \<and> (\<exists>ds. fst (Product_find M q (db w)) = Inr ds \<and> ds \<noteq> []
               \<and> body (fst (getProducts M q w)) = JArr (map toJSON ds)))
   \<and> (status (fst (getProducts M q w)) \<noteq> 200 \<longrightarrow>
        has_message (body (fst (getProducts M q w))))
   \<and> (status (fst (getProducts M q w)) = 500 \<longrightarrow>
        (\<exists>e. fst (Product_find M q (db w)) = Inl e \<and> fst (getProducts M q w) = server_error e))"
proof -
  obtain r s' where o: "Product_find M q (db w) = (r, s')"
    by (cases "Product_find M q (db w)")
  show ?thesis
    unfolding getProducts_outcome [OF o] o
    by (cases r)
       (auto simp: has_message_message has_message_server_error status_server_error
          JArr_no_message)
qed

lemma getProductById_shape:
  "(\<not> isValidObjectId M i \<longrightarrow>
        fst (getProductById M i w) = \<lparr>status = 400, body = message ''Invalid product ID''\<rparr>)
   \<and> (\<forall>e. isValidObjectId M i \<and> fst (Product_findById M i (db w)) = Inl e \<longrightarrow>
          fst (getProductById M i w) = server_error e)
   \<and> (isValidObjectId M i \<and> fst (Product_findById M i (db w)) = Inr None \<longrightarrow>
        fst (getProductById M i w) = \<lparr>status = 404, body = message ''Product not found''\<rparr>)
   \<and> (\<forall>d. isValidObjectId M i \<and> fst (Product_findById M i (db w)) = Inr (Some d) \<longrightarrow>
        fst (getProductById M i w) = \<lparr>status = 200, body = toJSON d\<rparr>)
   \<and> (status (fst (getProductById M i w)) = 200 \<longrightarrow>
        \<not> has_message (body (fst (getProductById M i w)))
        \<and> (\<exists>d. fst (Product_findById M i (db w)) = Inr (Some d)
              \<and> body (fst (getProductById M i w)) = toJSON d))
   \<and> (status (fst (getProductById M i w)) \<noteq> 200 \<longrightarrow>
        has_message (body (fst (getProductById M i w))))
   \<and> (status (fst (getProductById M i w)) = 500 \<longrightarrow>
        (\<exists>e. fst (Product_findById M i (db w)) = Inl e
            \<and> fst (getProductById M i w) = server_error e))"
proof (cases "isValidObjectId M i")
  case False
  then show ?thesis by (simp add: getProductById_def has_message_message)
next
  case True
  obtain r s' where o: "Product_findById M i (db w) = (r, s')"
    by (cases "Product_findById M i (db w)")
  show ?thesis
    unfolding getProductById_outcome [OF o True] o
    using True
    by (cases r)
       (auto simp: has_message_message has_message_server_error status_server_error
          toJSON_no_message split: option.splits)
qed

lemma createProduct_shape:
  "has_message (body (fst (createProduct M b w)))
   \<and> (\<forall>e. truthy b \<and> truthy (js_get b ''name'') \<and> truthy (js_get b ''brand'')
          \<and> truthy (js_get b ''category'') \<and> js_get b ''price'' \<noteq> JUndefined
          \<and> fst (Product_create M
                (JObj [(''name'', js_get b ''name''), (''brand'', js_get b ''brand''),
                       (''category'', js_get b ''category''), (''price'', js_get b ''price''),
                       (''inStock'', js_get b ''inStock'')]) (db w)) = Inl e \<longrightarrow>
          fst (createProduct M b w) = server_error e)
   \<and> (status (fst (createProduct M b w)) = 500 \<longrightarrow>
        (\<exists>e. fst (Product_create M
                (JObj [(''name'', js_get b ''name''), (''brand'', js_get b ''brand''),
                       (''category'', js_get b ''category''), (''price'', js_get b ''price''),
                       (''inStock'', js_get b ''inStock'')]) (db w)) = Inl e
            \<and> fst (createProduct M b w) = server_error e))"
proof (cases "truthy b \<and> truthy (js_get b ''name'') \<and> truthy (js_get b ''brand'')
              \<and> truthy (js_get b ''category'') \<and> js_get b ''price'' \<noteq> JUndefined")
  case False
  then show ?thesis
    by (auto simp: createProduct_def Let_def has_message_message)
next
  case True
  obtain r s' where o: "Product_create M
      (JObj [(''name'', js_get b ''name''), (''brand'', js_get b ''brand''),
             (''category'', js_get b ''category''), (''price'', js_get b ''price''),
             (''inStock'', js_get b ''inStock'')]) (db w) = (r, s')"
    by (cases "Product_create M
      (JObj [(''name'', js_get b ''name''), (''brand'', js_get b ''brand''),
             (''category'', js_get b ''category''), (''price'', js_get b ''price''),
             (''inStock'', js_get b ''inStock'')]) (db w)")
  from True have t: "truthy b" "truthy (js_get b ''name'')" "truthy (js_get b ''brand'')"
    "truthy (js_get b ''category'')" "js_get b ''price'' \<noteq> JUndefined" by simp_all
  show ?thesis
    unfolding createProduct_outcome [OF o t] o
    by (cases r)
       (simp_all add: has_message_server_error status_server_error has_message_first)
qed

lemma updateProduct_shape:
  "has_message (body (fst (updateProduct M i b w)))
   \<and> (\<forall>e. i \<noteq> [] \<and> isValidObjectId M i
          \<and> fst (Product_findByIdAndUpdate M i b (db w)) = Inl e \<longrightarrow>
          fst (updateProduct M i b w) = server_error e)
   \<and> (status (fst (updateProduct M i b w)) = 500 \<longrightarrow>
        (\<exists>e. fst (Product_findByIdAndUpdate M i b (db w)) = Inl e
            \<and> fst (updateProduct M i b w) = server_error e))"
proof (cases "isValidObjectId M i \<and> i \<noteq> []")
  case False
  then show ?thesis by (auto simp: updateProduct_def has_message_message)
next
  case True
  then have v: "isValidObjectId M i" and ne: "i \<noteq> []" by simp_all
  obtain r s' where o: "Product_findByIdAndUpdate M i b (db w) = (r, s')"
    by (cases "Product_findByIdAndUpdate M i b (db w)")
  show ?thesis
    unfolding updateProduct_outcome [OF o v ne] o
    by (cases r)
       (simp_all add: has_message_message has_message_server_error status_server_error
          has_message_first split: option.splits)
qed

lemma deleteProduct_shape:
  "has_message (body (fst (deleteProduct M i w)))
   \<and> (\<forall>e. i \<noteq> [] \<and> isValidObjectId M i
          \<and> fst (Product_findByIdAndDelete M i (db w)) = Inl e \<longrightarrow>
          fst (deleteProduct M i w) = server_error e)
   \<and> (status (fst (deleteProduct M i w)) = 500 \<longrightarrow>
        (\<exists>e. fst (Product_findByIdAndDelete M i (db w)) = Inl e
            \<and> fst (deleteProduct M i w) = server_error e))"
proof (cases "isValidObjectId M i \<and> i \<noteq> []")
  case False
  then show ?thesis by (auto simp: deleteProduct_def has_message_message)
next
  case True
  then have v: "isValidObjectId M i" and ne: "i \<noteq> []" by simp_all
  obtain r s' where o: "Product_findByIdAndDelete M i (db w) = (r, s')"
    by (cases "Product_findByIdAndDelete M i (db w)")
  show ?thesis
    unfolding deleteProduct_outcome [OF o v ne] o
    by (cases r)
       (simp_all add: has_message_message has_message_server_error status_server_error
          split: option.splits)
qed

text \<open>
  Claim C9, as amended. Every operation answers every input and every outcome of its
  Store call with a response, and a thrown Store error never escapes: it is answered
  with 500, and a 500 response is exactly
  \<^verbatim>\<open>{ message: "Server error", error: String(err) }\<close> for the error the Store call
  threw. Every response of Create, Update and Delete, and every response of List and
  GetByOne other than a success (status 200), carries a \<^verbatim>\<open>message\<close>. List succeeds
  exactly when the Store's \<open>find\<close> gives at least one Product, and its body is then the
  array of those Products; GetByOne succeeds exactly when the identifier is valid and
  the Store's \<open>findById\<close> gives a Product, and its body is then that Product itself. Neither of these two bodies has a
  \<^verbatim>\<open>message\<close>.
\<close>

theorem responses_carry_message:
  "((\<forall>e. fst (Product_find M q (db w)) = Inl e \<longrightarrow>
         fst (getProducts M q w) = server_error e)
    \<and> (fst (Product_find M q (db w)) = Inr [] \<longrightarrow>
         fst (getProducts M q w) = \<lparr>status = 404, body = message ''No products found''\<rparr>)
    \<and> (\<forall>ds. fst (Product_find M q (db w)) = Inr ds \<and> ds \<noteq> [] \<longrightarrow>
         fst (getProducts M q w) = \<lparr>status = 200, body = JArr (map toJSON ds)\<rparr>)
    \<and> (status (fst (getProducts M q w)) = 200 \<longrightarrow>
         \<not> has_message (body (fst (getProducts M q w)))
         \<and> (\<exists>ds. fst (Product_find M q (db w)) = Inr ds \<and> ds \<noteq> []
                \<and> body (fst (getProducts M q w)) = JArr (map toJSON ds)))
    \<and> (status (fst (getProducts M q w)) \<noteq> 200 \<longrightarrow>
         has_message (body (fst (getProducts M q w))))
    \<and> (status (fst (getProducts M q w)) = 500 \<longrightarrow>
         (\<exists>e. fst (Product_find M q (db w)) = Inl e
             \<and> fst (getProducts M q w) = server_error e)))
   \<and> ((\<not> isValidObjectId M i \<longrightarrow>
         fst (getProductById M i w) = \<lparr>status = 400, body = message ''Invalid product ID''\<rparr>)
    \<and> (\<forall>e. isValidObjectId M i \<and> fst (Product_findById M i (db w)) = Inl e \<longrightarrow>
           fst (getProductById M i w) = server_error e)
    \<and> (isValidObjectId M i \<and> fst (Product_findById M i (db w)) = Inr None \<longrightarrow>
         fst (getProductById M i w) = \<lparr>status = 404, body = message ''Product not found''\<rparr>)
    \<and> (\<forall>d. isValidObjectId M i \<and> fst (Product_findById M i (db w)) = Inr (Some d) \<longrightarrow>
         fst (getProductById M i w) = \<lparr>status = 200, body = toJSON d\<rparr>)
    \<and> (status (fst (getProductById M i w)) = 200 \<longrightarrow>
         \<not> has_message (body (fst (getProductById M i w)))
         \<and> (\<exists>d. fst (Product_findById M i (db w)) = Inr (Some d)
               \<and> body (fst (getProductById M i w)) = toJSON d))
    \<and> (status (fst (getProductById M i w)) \<noteq> 200 \<longrightarrow>
         has_message (body (fst (getProductById M i w))))
    \<and> (status (fst (getProductById M i w)) = 500 \<longrightarrow>
         (\<exists>e. fst (Product_findById M i (db w)) = Inl e
             \<and> fst (getProductById M i w) = server_error e)))
   \<and> (has_message (body (fst (createProduct M b w)))
    \<and> (\<forall>e. truthy b \<and> truthy (js_get b ''name'') \<and> truthy (js_get b ''brand'')
           \<and> truthy (js_get b ''category'') \<and> js_get b ''price'' \<noteq> JUndefined
           \<and> fst (Product_create M
                 (JObj [(''name'', js_get b ''name''), (''brand'', js_get b ''brand''),
                        (''category'', js_get b ''category''), (''price'', js_get b ''price''),
                        (''inStock'', js_get b ''inStock'')]) (db w)) = Inl e \<longrightarrow>
           fst (createProduct M b w) = server_error e)
    \<and> (status (fst (createProduct M b w)) = 500 \<longrightarrow>
         (\<exists>e. fst (Product_create M
                 (JObj [(''name'', js_get b ''name''), (''brand'', js_get b ''brand''),
                        (''category'', js_get b ''category''), (''price'', js_get b ''price''),
                        (''inStock'', js_get b ''inStock'')]) (db w)) = Inl e
             \<and> fst (createProduct M b w) = server_error e)))
   \<and> (has_message (body (fst (updateProduct M i b w)))
    \<and> (\<forall>e. i \<noteq> [] \<and> isValidObjectId M i
           \<and> fst (Product_findByIdAndUpdate M i b (db w)) = Inl e \<longrightarrow>
           fst (updateProduct M i b w) = server_error e)
    \<and> (status (fst (updateProduct M i b w)) = 500 \<longrightarrow>
         (\<exists>e. fst (Product_findByIdAndUpdate M i b (db w)) = Inl e
             \<and> fst (updateProduct M i b w) = server_error e)))
   \<and> (has_message (body (fst (deleteProduct M i w)))
    \<and> (\<forall>e. i \<noteq> [] \<and> isValidObjectId M i
           \<and> fst (Product_findByIdAndDelete M i (db w)) = Inl e \<longrightarrow>
           fst (deleteProduct M i w) = server_error e)
    \<and> (status (fst (deleteProduct M i w)) = 500 \<longrightarrow>
         (\<exists>e. fst (Product_findByIdAndDelete M i (db w)) = Inl e
             \<and> fst (deleteProduct M i w) = server_error e)))
   \<and> \<not> has_message (JArr xs) \<and> \<not> has_message (toJSON d)
   \<and> has_message (body (server_error err))"
  by (rule conjI [OF getProducts_shape
        conjI [OF getProductById_shape
          conjI [OF createProduct_shape
            conjI [OF updateProduct_shape
              conjI [OF deleteProduct_shape
                conjI [OF JArr_no_message
                  conjI [OF toJSON_no_message has_message_server_error]]]]]]])

theorem responses_carry_message_witness:
  "fst (createProduct Product (pen (JNum 1)) (start\<lparr>db := (db start)\<lparr>online := False\<rparr>\<rparr>)) =
     server_error unreachable
   \<and> has_message (body (fst (createProduct Product (pen (JNum 1))
                                (start\<lparr>db := (db start)\<lparr>online := False\<rparr>\<rparr>))))
   \<and> fst (getProducts Product (JObj []) shop) =
       \<lparr>status = 200, body = JArr [toJSON pen_doc]\<rparr>
   \<and> fst (getProductById Product (new_id 0) shop) = \<lparr>status = 200, body = toJSON pen_doc\<rparr>
   \<and> fst (getProducts Product (JObj []) start) =
       \<lparr>status = 404, body = message ''No products found''\<rparr>"
proof -
  let ?off = "start\<lparr>db := (db start)\<lparr>online := False\<rparr>\<rparr>"
  note off = responses_carry_message [of Product "JObj []" ?off "new_id 0" "pen (JNum 1)" "[]" pen_doc]
  note at_shop = responses_carry_message [of Product "JObj []" shop "new_id 0" "pen (JNum 1)" "[]" pen_doc]
  note at_start = responses_carry_message [of Product "JObj []" start "new_id 0" "pen (JNum 1)" "[]" pen_doc]
  note created = off [THEN conjunct2, THEN conjunct2, THEN conjunct1]
  have thrown: "fst (Product_create Product
      (JObj [(''name'', js_get (pen (JNum 1)) ''name''), (''brand'', js_get (pen (JNum 1)) ''brand''),
             (''category'', js_get (pen (JNum 1)) ''category''),
             (''price'', js_get (pen (JNum 1)) ''price''),
             (''inStock'', js_get (pen (JNum 1)) ''inStock'')]) (db ?off)) = Inl unreachable"
    by (simp add: Product_operations store_create_def start_def)
  have fields: "truthy (pen (JNum 1)) \<and> truthy (js_get (pen (JNum 1)) ''name'')
      \<and> truthy (js_get (pen (JNum 1)) ''brand'') \<and> truthy (js_get (pen (JNum 1)) ''category'')
      \<and> js_get (pen (JNum 1)) ''price'' \<noteq> JUndefined"
    by (simp add: pen_def)
  have one: "fst (createProduct Product (pen (JNum 1)) ?off) = server_error unreachable"
    using created [THEN conjunct2, THEN conjunct1, rule_format, of unreachable] thrown fields
    by blast
  have two: "has_message (body (fst (createProduct Product (pen (JNum 1)) ?off)))"
    using created [THEN conjunct1] .
  have found: "fst (Product_find Product (JObj []) (db shop)) = Inr [pen_doc]"
    by (simp add: Product_operations store_find_def shop_def matches_def)
  have three: "fst (getProducts Product (JObj []) shop) =
      \<lparr>status = 200, body = JArr [toJSON pen_doc]\<rparr>"
    using at_shop [THEN conjunct1, THEN conjunct2, THEN conjunct2, THEN conjunct1,
                   rule_format, of "[pen_doc]"] found
    by simp
  have got: "isValidObjectId Product (new_id 0)
      \<and> fst (Product_findById Product (new_id 0) (db shop)) = Inr (Some pen_doc)"
    by (simp add: Product_operations store_findById_def shop_def pen_doc_def new_id_valid)
  have four: "fst (getProductById Product (new_id 0) shop) =
      \<lparr>status = 200, body = toJSON pen_doc\<rparr>"
    using at_shop [THEN conjunct2, THEN conjunct1, THEN conjunct2, THEN conjunct2,
                   THEN conjunct2, THEN conjunct1, rule_format, of pen_doc] got
    by blast
  have none: "fst (Product_find Product (JObj []) (db start)) = Inr []"
    by (simp add: Product_operations store_find_def start_def)
  have five: "fst (getProducts Product (JObj []) start) =
      \<lparr>status = 404, body = message ''No products found''\<rparr>"
    using at_start [THEN conjunct1, THEN conjunct2, THEN conjunct1] none
    by blast
  show ?thesis using one two three four five by blast
qed

text \<open>
  The claim as stated fails on the Store that holds one Product: List and GetByOne
  succeed there, and neither response body has a \<^verbatim>\<open>message\<close>.
\<close>

theorem success_without_message_counterexample:
  "status (fst (getProducts Product (JObj []) shop)) = 200
   \<and> \<not> has_message (body (fst (getProducts Product (JObj []) shop)))
   \<and> status (fst (getProductById Product (new_id 0) shop)) = 200
   \<and> \<not> has_message (body (fst (getProductById Product (new_id 0) shop)))"
  by (simp add: getProducts_def getProductById_def await_def Product_operations store_find_def
        store_findById_def shop_def pen_doc_def matches_def new_id_valid toJSON_no_message
        JArr_no_message)

section \<open>Create with a price the Store refuses\<close>



end
